theory Spec2Isabelle
  imports Main
begin

section \<open>Data model\<close>

text \<open>
  The four tables of the payment service (\<open>account\<close>, \<open>pay_order\<close>,
  \<open>account_transaction\<close>, \<open>outbox_message\<close>) are lists of rows in insertion order,
  which is the order of the auto-increment primary key; a query ending in \<open>First\<close> reads
  the first matching row of the list. Order, ledger and outbox statuses are strings, as in
  the source. Columns that no modelled function reads are left out: the numeric ids of
  accounts, orders and ledger rows (the list position stands for them), and the creation
  and update timestamps of accounts, ledger rows and outbox messages. A field name that
  several structs share carries a prefix in all but one of them (\<open>AccUserID\<close>,
  \<open>TxOrderNo\<close>, \<open>ReqAmount\<close>), and a method name that several repositories share
  carries the repository's name (\<open>OrderCreate\<close>, \<open>TransactionGetByOrderNo\<close>,
  \<open>OutboxUpdateStatus\<close>).

  Go's \<open>int64\<close> and \<open>int\<close> and the integer columns are \<open>int\<close>. The store rejects an
  arithmetic result outside the column's range with an error instead of wrapping it, and
  failures of the infrastructure (store I/O, out-of-range values, the message bus client,
  the key-value store) are not part of the model: the functions below describe the runs in
  which every statement is executed by the store. What the source decides itself is
  modelled: unique indexes, guarded updates, affected-row counts, rollback.

  Timestamps are \<open>int\<close> nanoseconds. A \<open>time.Duration\<close> is a 64-bit count of
  nanoseconds: a product of durations wraps around (\<open>wrap64\<close>), and the difference of two
  timestamps is cut off at the least and greatest duration (\<open>Since\<close>), as \<open>Time.Sub\<close>
  does. The clock, the generated identifiers, the outcome of taking the distributed lock
  and the encoded event payload are inputs (record \<open>env\<close>). A request runs alone: the
  store it reads under the lock is the store its first read saw.
\<close>

type_synonym time = int

definition OrderStatusCreated :: string where "OrderStatusCreated = ''CREATED''"
definition OrderStatusPaying :: string where "OrderStatusPaying = ''PAYING''"
definition OrderStatusPaid :: string where "OrderStatusPaid = ''PAID''"
definition OrderStatusFailed :: string where "OrderStatusFailed = ''FAILED''"
definition OrderStatusClosed :: string where "OrderStatusClosed = ''CLOSED''"
definition OrderStatusCancelled :: string where "OrderStatusCancelled = ''CANCELLED''"
definition OrderStatusRefunding :: string where "OrderStatusRefunding = ''REFUNDING''"
definition OrderStatusRefunded :: string where "OrderStatusRefunded = ''REFUNDED''"

text \<open>\<open>model.ValidStatusTransitions\<close>: a Go map from a status to the allowed targets.\<close>

definition ValidStatusTransitions :: "(string \<times> string list) list" where
  "ValidStatusTransitions =
     [(OrderStatusCreated, [OrderStatusPaying, OrderStatusClosed, OrderStatusCancelled]),
      (OrderStatusPaying, [OrderStatusPaid, OrderStatusFailed]),
      (OrderStatusPaid, [OrderStatusRefunding]),
      (OrderStatusRefunding, [OrderStatusRefunded])]"

text \<open>\<open>model.CanTransitionTo\<close>: look the current status up, then scan the targets.\<close>

definition CanTransitionTo :: "string \<Rightarrow> string \<Rightarrow> bool" where
  "CanTransitionTo currentStatus targetStatus =
     (case map_of ValidStatusTransitions currentStatus of
        None \<Rightarrow> False
      | Some allowedStatuses \<Rightarrow> targetStatus \<in> set allowedStatuses)"

record PayOrder =
  OrderNo :: string
  RequestID :: string
  UserID :: int
  Amount :: int
  ProductType :: string
  ProductID :: string
  Status :: string
  ExpiredAt :: time
  PaidAt :: "time option"
  CreatedAt :: time
  UpdatedAt :: time

record Account =
  AccUserID :: int
  Balance :: int
  FrozenAmount :: int
  Version :: int

definition TransactionTypeRecharge :: string where "TransactionTypeRecharge = ''RECHARGE''"
definition TransactionTypePay :: string where "TransactionTypePay = ''PAY''"
definition TransactionTypeRefund :: string where "TransactionTypeRefund = ''REFUND''"

record AccountTransaction =
  TransactionNo :: string
  TxUserID :: int
  TxOrderNo :: string
  TxAmount :: int
  TxType :: string
  BalanceBefore :: int
  BalanceAfter :: int
  Remark :: string

definition OutboxStatusPending :: string where "OutboxStatusPending = ''PENDING''"
definition OutboxStatusSent :: string where "OutboxStatusSent = ''SENT''"
definition OutboxStatusFailed :: string where "OutboxStatusFailed = ''FAILED''"

record OutboxMessage =
  MsgID :: int
  MessageKey :: string
  Topic :: string
  Payload :: string
  MsgStatus :: string
  RetryCount :: int

record db =
  accounts :: "Account list"
  orders :: "PayOrder list"
  ledger :: "AccountTransaction list"
  outbox :: "OutboxMessage list"

text \<open>
  Errors are values. The repository's sentinel errors keep their names; the service layer's
  \<open>errors.New\<close> and \<open>fmt.Errorf\<close> values (whose texts are Chinese in the source) are one
  constructor per distinct literal, a wrapped error carrying the error it wraps.
  \<open>ErrDuplicateKey\<close> is the store's error for an insert that violates a unique index.
\<close>

datatype error =
    ErrOrderNotFound
  | ErrOrderStatusInvalid
  | ErrDuplicateRequest
  | ErrAccountNotFound
  | ErrBalanceNotEnough
  | ErrOptimisticLock
  | ErrLockFailed
  | ErrDuplicateKey
  | SvcOrderNotExist
  | SvcBalanceNotEnough
  | SvcBusyRetry
  | SvcRechargeAmountNotPositive
  | SvcRefundNotAllowed string
  | SvcQueryOrderFailed error
  | SvcSystemBusy error
  | SvcGetAccountFailed error
  | SvcCreateOrderFailed error
  | SvcUpdateStatusFailed error
  | SvcDeductFailed error
  | SvcRecordLedgerFailed error
  | SvcQueryLedgerFailed error
  | SvcQueryAccountFailed error
  | SvcRefundCreditFailed error
  | SvcWriteOutboxFailed error

section \<open>Order repository\<close>

text \<open>
  A conditional \<open>UPDATE ... WHERE\<close> rewrites every row that satisfies the condition and
  reports how many rows it changed.
\<close>

definition update_where :: "('a \<Rightarrow> bool) \<Rightarrow> ('a \<Rightarrow> 'a) \<Rightarrow> 'a list \<Rightarrow> 'a list" where
  "update_where P f rows = map (\<lambda>r. if P r then f r else r) rows"

definition rows_affected :: "('a \<Rightarrow> bool) \<Rightarrow> 'a list \<Rightarrow> nat" where
  "rows_affected P rows = length (filter P rows)"

text \<open>\<open>OrderRepository.GetByOrderNo\<close>: a missing row is \<open>ErrOrderNotFound\<close>.\<close>

definition GetByOrderNo :: "db \<Rightarrow> string \<Rightarrow> error + PayOrder" where
  "GetByOrderNo d orderNo =
     (case find (\<lambda>r. OrderNo r = orderNo) (orders d) of
        None \<Rightarrow> Inl ErrOrderNotFound
      | Some order \<Rightarrow> Inr order)"

text \<open>\<open>OrderRepository.GetByRequestID\<close>: a missing row is \<open>nil, nil\<close>.\<close>

definition GetByRequestID :: "db \<Rightarrow> string \<Rightarrow> PayOrder option" where
  "GetByRequestID d requestID = find (\<lambda>r. RequestID r = requestID) (orders d)"

text \<open>
  \<open>OrderRepository.UpdateStatus\<close>: the transition table is consulted first; then the guarded
  update runs, sets \<open>paid_at\<close> when the target is \<open>PAID\<close> (and \<open>updated_at\<close>, which the
  ORM maintains), and zero affected rows is \<open>ErrOrderStatusInvalid\<close>. The result is the
  returned error (or none) and the table after the call.
\<close>

definition UpdateStatus :: "time \<Rightarrow> db \<Rightarrow> string \<Rightarrow> string \<Rightarrow> string \<Rightarrow> error option \<times> db" where
  "UpdateStatus now d orderNo fromStatus toStatus =
     (if \<not> CanTransitionTo fromStatus toStatus then (Some ErrOrderStatusInvalid, d)
      else
        let cond = (\<lambda>r. OrderNo r = orderNo \<and> Status r = fromStatus);
            upd = (\<lambda>r. if toStatus = OrderStatusPaid
                        then r\<lparr>Status := toStatus, PaidAt := Some now, UpdatedAt := now\<rparr>
                        else r\<lparr>Status := toStatus, UpdatedAt := now\<rparr>);
            d' = d\<lparr>orders := update_where cond upd (orders d)\<rparr>
        in if rows_affected cond (orders d) = 0 then (Some ErrOrderStatusInvalid, d')
           else (None, d'))"

text \<open>
  \<open>OrderRepository.Create\<close>: an insert. The unique indexes on \<open>order_no\<close> and
  \<open>request_id\<close> reject a duplicate; the ORM fills \<open>created_at\<close> and \<open>updated_at\<close>.
\<close>

definition OrderCreate :: "time \<Rightarrow> db \<Rightarrow> PayOrder \<Rightarrow> error option \<times> db" where
  "OrderCreate now d order =
     (if \<exists>r \<in> set (orders d). OrderNo r = OrderNo order \<or> RequestID r = RequestID order
      then (Some ErrDuplicateKey, d)
      else (None, d\<lparr>orders := orders d @ [order\<lparr>CreatedAt := now, UpdatedAt := now\<rparr>]\<rparr>))"

text \<open>
  \<open>OrderRepository.GetPayingOrders\<close>: \<open>status = PAYING AND updated_at < beforeTime\<close>,
  limited. The query names no order; the rows come in the order of the primary key.
\<close>

definition GetPayingOrders :: "db \<Rightarrow> time \<Rightarrow> nat \<Rightarrow> PayOrder list" where
  "GetPayingOrders d beforeTime limit =
     take limit (filter (\<lambda>r. Status r = OrderStatusPaying \<and> UpdatedAt r < beforeTime) (orders d))"

text \<open>
  \<open>OrderRepository.GetExpiredOrders\<close>: \<open>status = CREATED AND expired_at < now\<close>, limited,
  in the order of the primary key.
\<close>

definition GetExpiredOrders :: "time \<Rightarrow> db \<Rightarrow> nat \<Rightarrow> PayOrder list" where
  "GetExpiredOrders now d limit =
     take limit (filter (\<lambda>r. Status r = OrderStatusCreated \<and> ExpiredAt r < now) (orders d))"

section \<open>Account repository\<close>

text \<open>\<open>AccountRepository.GetByUserID\<close>: a missing row is \<open>ErrAccountNotFound\<close>.\<close>

definition GetByUserID :: "db \<Rightarrow> int \<Rightarrow> error + Account" where
  "GetByUserID d userID =
     (case find (\<lambda>a. AccUserID a = userID) (accounts d) of
        None \<Rightarrow> Inl ErrAccountNotFound
      | Some account \<Rightarrow> Inr account)"

text \<open>
  \<open>AccountRepository.Deduct\<close>: the guarded update runs on the transaction handle \<open>tx\<close>.
  When it affects no row, the account is read again through the repository's own handle
  \<open>rdb\<close> (\<open>r.GetByUserID\<close>), and that row decides between \<open>ErrBalanceNotEnough\<close> and
  \<open>ErrOptimisticLock\<close>.
\<close>

definition Deduct :: "db \<Rightarrow> db \<Rightarrow> int \<Rightarrow> int \<Rightarrow> int \<Rightarrow> error option \<times> db" where
  "Deduct rdb tx userID amount version =
     (let cond = (\<lambda>a. AccUserID a = userID \<and> Balance a \<ge> amount \<and> Version a = version);
          upd = (\<lambda>a. a\<lparr>Balance := Balance a - amount, Version := Version a + 1\<rparr>);
          tx' = tx\<lparr>accounts := update_where cond upd (accounts tx)\<rparr>
      in if rows_affected cond (accounts tx) = 0 then
           (case GetByUserID rdb userID of
              Inl err \<Rightarrow> (Some err, tx')
            | Inr account \<Rightarrow>
                if Balance account < amount then (Some ErrBalanceNotEnough, tx')
                else (Some ErrOptimisticLock, tx'))
         else (None, tx'))"

text \<open>\<open>AccountRepository.Increase\<close>: an unguarded credit; no row is \<open>ErrAccountNotFound\<close>.\<close>

definition Increase :: "db \<Rightarrow> int \<Rightarrow> int \<Rightarrow> error option \<times> db" where
  "Increase tx userID amount =
     (let cond = (\<lambda>a. AccUserID a = userID);
          upd = (\<lambda>a. a\<lparr>Balance := Balance a + amount, Version := Version a + 1\<rparr>);
          tx' = tx\<lparr>accounts := update_where cond upd (accounts tx)\<rparr>
      in if rows_affected cond (accounts tx) = 0 then (Some ErrAccountNotFound, tx')
         else (None, tx'))"

text \<open>
  \<open>AccountRepository.GetOrCreate\<close>: read; when the row is missing, insert one with balance 0
  (frozen amount and version take the column default 0; a conflict on \<open>user_id\<close> is ignored)
  and read again.
\<close>

definition GetOrCreate :: "db \<Rightarrow> int \<Rightarrow> (error + Account) \<times> db" where
  "GetOrCreate d userID =
     (case GetByUserID d userID of
        Inr account \<Rightarrow> (Inr account, d)
      | Inl err \<Rightarrow>
          if err \<noteq> ErrAccountNotFound then (Inl err, d)
          else
            let newAccount = \<lparr>AccUserID = userID, Balance = 0, FrozenAmount = 0, Version = 0\<rparr>;
                d' = (if \<exists>a \<in> set (accounts d). AccUserID a = userID then d
                      else d\<lparr>accounts := accounts d @ [newAccount]\<rparr>)
            in (GetByUserID d' userID, d'))"

section \<open>Ledger repository\<close>

text \<open>\<open>TransactionRepository.Create\<close>: an insert; \<open>transaction_no\<close> is unique.\<close>

definition TransactionCreate :: "db \<Rightarrow> AccountTransaction \<Rightarrow> error option \<times> db" where
  "TransactionCreate d txn =
     (if \<exists>r \<in> set (ledger d). TransactionNo r = TransactionNo txn
      then (Some ErrDuplicateKey, d)
      else (None, d\<lparr>ledger := ledger d @ [txn]\<rparr>))"

text \<open>
  \<open>TransactionRepository.GetByOrderNo\<close>: the first row with the order number, whatever its
  type; no row is \<open>nil, nil\<close>.
\<close>

definition TransactionGetByOrderNo :: "db \<Rightarrow> string \<Rightarrow> AccountTransaction option" where
  "TransactionGetByOrderNo d orderNo = find (\<lambda>r. TxOrderNo r = orderNo) (ledger d)"

text \<open>\<open>TransactionRepository.GetByUserIDAndOrderNo\<close>: the first row of the user and order.\<close>

definition GetByUserIDAndOrderNo :: "db \<Rightarrow> int \<Rightarrow> string \<Rightarrow> AccountTransaction option" where
  "GetByUserIDAndOrderNo d userID orderNo =
     find (\<lambda>r. TxUserID r = userID \<and> TxOrderNo r = orderNo) (ledger d)"

section \<open>Outbox repository\<close>

text \<open>\<open>OutboxRepository.Create\<close>: an insert; the store assigns the next id.\<close>

definition next_id :: "OutboxMessage list \<Rightarrow> int" where
  "next_id rows = foldr max (map MsgID rows) 0 + 1"

definition OutboxCreate :: "db \<Rightarrow> OutboxMessage \<Rightarrow> error option \<times> db" where
  "OutboxCreate d msg = (None, d\<lparr>outbox := outbox d @ [msg\<lparr>MsgID := next_id (outbox d)\<rparr>]\<rparr>)"

text \<open>\<open>OutboxRepository.UpdateStatus\<close>.\<close>

definition OutboxUpdateStatus :: "db \<Rightarrow> int \<Rightarrow> string \<Rightarrow> db" where
  "OutboxUpdateStatus d ident status =
     d\<lparr>outbox := update_where (\<lambda>m. MsgID m = ident) (\<lambda>m. m\<lparr>MsgStatus := status\<rparr>) (outbox d)\<rparr>"

text \<open>\<open>OutboxRepository.IncrementRetryCount\<close>.\<close>

definition IncrementRetryCount :: "db \<Rightarrow> int \<Rightarrow> db" where
  "IncrementRetryCount d ident =
     d\<lparr>outbox := update_where (\<lambda>m. MsgID m = ident)
                   (\<lambda>m. m\<lparr>RetryCount := RetryCount m + 1\<rparr>) (outbox d)\<rparr>"

text \<open>\<open>OutboxRepository.MarkAsFailed\<close>: sets the status and adds one to \<open>retry_count\<close>.\<close>

definition MarkAsFailed :: "db \<Rightarrow> int \<Rightarrow> db" where
  "MarkAsFailed d ident =
     d\<lparr>outbox := update_where (\<lambda>m. MsgID m = ident)
                   (\<lambda>m. m\<lparr>MsgStatus := OutboxStatusFailed, RetryCount := RetryCount m + 1\<rparr>)
                   (outbox d)\<rparr>"

section \<open>Configuration and environment\<close>

record config =
  OrderTimeoutMinutes :: int
  MaxRetryCount :: int
  PayResultTopic :: string

record env =
  Now :: time
  GenOrderNo :: string
  GenTransactionNo :: string
  GenRefundNo :: string
  LockResult :: "error option"
  JsonPayload :: string

definition Minute :: int where
  "Minute = 60 * 1000000000"

text \<open>The value of a 64-bit signed integer expression whose exact result is \<open>x\<close>.\<close>

definition wrap64 :: "int \<Rightarrow> int" where
  "wrap64 x = (x + 2 ^ 63) mod 2 ^ 64 - 2 ^ 63"

text \<open>
  \<open>time.Duration(minutes) * time.Minute\<close>, for a configured number of minutes (a Go
  \<open>int\<close>): the product wraps around.
\<close>

definition minutes :: "int \<Rightarrow> int" where
  "minutes n = wrap64 (n * Minute)"

text \<open>\<open>time.Since\<close> at clock value \<open>now\<close>: the difference, cut off at the range of a duration.\<close>

definition Since :: "time \<Rightarrow> time \<Rightarrow> int" where
  "Since now t = max (- (2 ^ 63)) (min (2 ^ 63 - 1) (now - t))"

text \<open>\<open>db.Transaction\<close>: the body's writes are kept when it returns no error, dropped otherwise.\<close>

definition Transaction :: "db \<Rightarrow> (db \<Rightarrow> error + db) \<Rightarrow> error option \<times> db" where
  "Transaction d body = (case body d of Inl err \<Rightarrow> (Some err, d) | Inr d' \<Rightarrow> (None, d'))"

section \<open>Pay service\<close>

record PayRequest =
  ReqRequestID :: string
  ReqUserID :: int
  ReqAmount :: int
  ReqProductType :: string
  ReqProductID :: string

text \<open>The response messages of the services, one constructor per literal of the source.\<close>

datatype message = MsgOrderExists | MsgPaySuccess | MsgAlreadyRefunded | MsgRefundSuccess

record PayResponse =
  RespOrderNo :: string
  RespStatus :: string
  RespAmount :: int
  RespMessage :: message

text \<open>
  The body of the transaction in \<open>PayService.Pay\<close> (lines 122 to 184). The ledger remark,
  whose prefix is a Chinese word in the source, is written with the prefix \<open>pay-\<close> (and
  \<open>refund-\<close> in the refund).
\<close>

definition PayTx :: "config \<Rightarrow> env \<Rightarrow> db \<Rightarrow> PayRequest \<Rightarrow> Account \<Rightarrow> PayOrder \<Rightarrow> db \<Rightarrow> error + db" where
  "PayTx cfg e rdb req account order tx =
     (case OrderCreate (Now e) tx order of
        (Some err, _) \<Rightarrow> Inl (SvcCreateOrderFailed err)
      | (None, tx1) \<Rightarrow>
     (case UpdateStatus (Now e) tx1 (OrderNo order) OrderStatusCreated OrderStatusPaying of
        (Some err, _) \<Rightarrow> Inl (SvcUpdateStatusFailed err)
      | (None, tx2) \<Rightarrow>
     (case Deduct rdb tx2 (ReqUserID req) (ReqAmount req) (Version account) of
        (Some err, _) \<Rightarrow>
          Inl (if err = ErrBalanceNotEnough then SvcBalanceNotEnough
               else if err = ErrOptimisticLock then SvcBusyRetry
               else SvcDeductFailed err)
      | (None, tx3) \<Rightarrow>
     (let transaction = \<lparr>TransactionNo = GenTransactionNo e,
                         TxUserID = ReqUserID req,
                         TxOrderNo = OrderNo order,
                         TxAmount = - ReqAmount req,
                         TxType = TransactionTypePay,
                         BalanceBefore = Balance account,
                         BalanceAfter = Balance account - ReqAmount req,
                         Remark = ''pay-'' @ ReqProductType req @ ''-'' @ ReqProductID req\<rparr>
      in case TransactionCreate tx3 transaction of
        (Some err, _) \<Rightarrow> Inl (SvcRecordLedgerFailed err)
      | (None, tx4) \<Rightarrow>
     (case UpdateStatus (Now e) tx4 (OrderNo order) OrderStatusPaying OrderStatusPaid of
        (Some err, _) \<Rightarrow> Inl (SvcUpdateStatusFailed err)
      | (None, tx5) \<Rightarrow>
     (let outboxMsg = \<lparr>MsgID = 0,
                       MessageKey = OrderNo order,
                       Topic = PayResultTopic cfg,
                       Payload = JsonPayload e,
                       MsgStatus = OutboxStatusPending,
                       RetryCount = 0\<rparr>
      in case OutboxCreate tx5 outboxMsg of
        (Some err, _) \<Rightarrow> Inl (SvcWriteOutboxFailed err)
      | (None, tx6) \<Rightarrow> Inr tx6))))))"

text \<open>
  \<open>PayService.Pay\<close>: the unlocked idempotency check, the lock, the check again, the early
  balance check, then the transaction. The result is the response or error and the store
  after the call (the account row made by \<open>GetOrCreate\<close> stays when the payment fails).
\<close>

definition existing_response :: "PayOrder \<Rightarrow> PayResponse" where
  "existing_response existingOrder =
     \<lparr>RespOrderNo = OrderNo existingOrder, RespStatus = Status existingOrder,
      RespAmount = Amount existingOrder, RespMessage = MsgOrderExists\<rparr>"

definition Pay :: "config \<Rightarrow> env \<Rightarrow> db \<Rightarrow> PayRequest \<Rightarrow> (error + PayResponse) \<times> db" where
  "Pay cfg e d req =
     (case GetByRequestID d (ReqRequestID req) of
        Some existingOrder \<Rightarrow> (Inr (existing_response existingOrder), d)
      | None \<Rightarrow>
     (case LockResult e of
        Some err \<Rightarrow> (Inl (SvcSystemBusy err), d)
      | None \<Rightarrow>
     (case GetByRequestID d (ReqRequestID req) of
        Some existingOrder \<Rightarrow> (Inr (existing_response existingOrder), d)
      | None \<Rightarrow>
     (case GetOrCreate d (ReqUserID req) of
        (Inl err, d1) \<Rightarrow> (Inl (SvcGetAccountFailed err), d1)
      | (Inr account, d1) \<Rightarrow>
          if Balance account < ReqAmount req then (Inl SvcBalanceNotEnough, d1)
          else
            let orderNo = GenOrderNo e;
                expiredAt = Now e + minutes (OrderTimeoutMinutes cfg);
                order = \<lparr>OrderNo = orderNo, RequestID = ReqRequestID req,
                         UserID = ReqUserID req, Amount = ReqAmount req,
                         ProductType = ReqProductType req, ProductID = ReqProductID req,
                         Status = OrderStatusCreated, ExpiredAt = expiredAt,
                         PaidAt = None, CreatedAt = 0, UpdatedAt = 0\<rparr>
            in case Transaction d1 (PayTx cfg e d1 req account order) of
                 (Some err, d2) \<Rightarrow> (Inl err, d2)
               | (None, d2) \<Rightarrow>
                   (Inr \<lparr>RespOrderNo = orderNo, RespStatus = OrderStatusPaid,
                         RespAmount = ReqAmount req, RespMessage = MsgPaySuccess\<rparr>, d2)))))"

section \<open>Refund service\<close>

record RefundRequest =
  RfRequestID :: string
  RfOrderNo :: string
  RfReason :: string

record RefundResponse =
  RfRespRefundNo :: string
  RfRespOrderNo :: string
  RfRespAmount :: int
  RfRespStatus :: string
  RfRespMessage :: message

definition refunded_response :: "PayOrder \<Rightarrow> RefundResponse" where
  "refunded_response order =
     \<lparr>RfRespRefundNo = [], RfRespOrderNo = OrderNo order, RfRespAmount = Amount order,
      RfRespStatus = OrderStatusRefunded, RfRespMessage = MsgAlreadyRefunded\<rparr>"

text \<open>The body of the transaction in \<open>RefundService.Refund\<close> (lines 113 to 167).\<close>

definition RefundTx :: "config \<Rightarrow> env \<Rightarrow> db \<Rightarrow> RefundRequest \<Rightarrow> PayOrder \<Rightarrow> db \<Rightarrow> error + db" where
  "RefundTx cfg e rdb req order tx =
     (case UpdateStatus (Now e) tx (RfOrderNo req) OrderStatusPaid OrderStatusRefunding of
        (Some err, _) \<Rightarrow> Inl (SvcUpdateStatusFailed err)
      | (None, tx1) \<Rightarrow>
     (case GetByUserID rdb (UserID order) of
        Inl err \<Rightarrow> Inl (SvcQueryAccountFailed err)
      | Inr account \<Rightarrow>
     (case Increase tx1 (UserID order) (Amount order) of
        (Some err, _) \<Rightarrow> Inl (SvcRefundCreditFailed err)
      | (None, tx2) \<Rightarrow>
     (let transaction = \<lparr>TransactionNo = GenTransactionNo e,
                         TxUserID = UserID order,
                         TxOrderNo = RfOrderNo req,
                         TxAmount = Amount order,
                         TxType = TransactionTypeRefund,
                         BalanceBefore = Balance account,
                         BalanceAfter = Balance account + Amount order,
                         Remark = ''refund-'' @ GenRefundNo e @ ''-'' @ RfReason req\<rparr>
      in case TransactionCreate tx2 transaction of
        (Some err, _) \<Rightarrow> Inl (SvcRecordLedgerFailed err)
      | (None, tx3) \<Rightarrow>
     (case UpdateStatus (Now e) tx3 (RfOrderNo req) OrderStatusRefunding OrderStatusRefunded of
        (Some err, _) \<Rightarrow> Inl (SvcUpdateStatusFailed err)
      | (None, tx4) \<Rightarrow>
     (let outboxMsg = \<lparr>MsgID = 0,
                       MessageKey = GenRefundNo e,
                       Topic = PayResultTopic cfg,
                       Payload = JsonPayload e,
                       MsgStatus = OutboxStatusPending,
                       RetryCount = 0\<rparr>
      in case OutboxCreate tx4 outboxMsg of
        (Some err, _) \<Rightarrow> Inl (SvcWriteOutboxFailed err)
      | (None, tx5) \<Rightarrow> Inr tx5))))))"

text \<open>
  \<open>RefundService.Refund\<close> from the lock on (lines 83 to 182): take the lock, read the
  order again, answer \<open>REFUNDED\<close> for an order that is already refunded (line 100), and
  run the transaction with the order just read.
\<close>

definition Refund_locked :: "config \<Rightarrow> env \<Rightarrow> db \<Rightarrow> RefundRequest \<Rightarrow> (error + RefundResponse) \<times> db" where
  "Refund_locked cfg e d req =
     (case LockResult e of
        Some err \<Rightarrow> (Inl (SvcSystemBusy err), d)
      | None \<Rightarrow>
     (case GetByOrderNo d (RfOrderNo req) of
        Inl err \<Rightarrow> (Inl err, d)
      | Inr order \<Rightarrow>
          if Status order \<noteq> OrderStatusPaid then
            (if Status order = OrderStatusRefunded then (Inr (refunded_response order), d)
             else (Inl (SvcRefundNotAllowed (Status order)), d))
          else
            let refundNo = GenRefundNo e
            in case Transaction d (RefundTx cfg e d req order) of
                 (Some err, d') \<Rightarrow> (Inl err, d')
               | (None, d') \<Rightarrow>
                   (Inr \<lparr>RfRespRefundNo = refundNo, RfRespOrderNo = RfOrderNo req,
                         RfRespAmount = Amount order, RfRespStatus = OrderStatusRefunded,
                         RfRespMessage = MsgRefundSuccess\<rparr>, d')))"

text \<open>
  \<open>RefundService.Refund\<close> up to the lock: read the order and require \<open>PAID\<close> (line 66); look for a ledger
  row of the user and order and answer \<open>REFUNDED\<close> when it is a refund row (line 74);
  then continue with \<open>Refund_locked\<close>.
\<close>

definition Refund :: "config \<Rightarrow> env \<Rightarrow> db \<Rightarrow> RefundRequest \<Rightarrow> (error + RefundResponse) \<times> db" where
  "Refund cfg e d req =
     (case GetByOrderNo d (RfOrderNo req) of
        Inl err \<Rightarrow>
          (Inl (if err = ErrOrderNotFound then SvcOrderNotExist else SvcQueryOrderFailed err), d)
      | Inr order0 \<Rightarrow>
     (if Status order0 \<noteq> OrderStatusPaid then (Inl (SvcRefundNotAllowed (Status order0)), d)
      else
     (case GetByUserIDAndOrderNo d (UserID order0) (RfOrderNo req) of
        Some existingTrans \<Rightarrow>
          if TxType existingTrans = TransactionTypeRefund then (Inr (refunded_response order0), d)
          else Refund_locked cfg e d req
      | None \<Rightarrow> Refund_locked cfg e d req)))"

section \<open>Account service\<close>

text \<open>\<open>AccountService.GetBalance\<close>: a user without an account has balance 0.\<close>

definition GetBalance :: "db \<Rightarrow> int \<Rightarrow> error + int" where
  "GetBalance d userID =
     (case GetByUserID d userID of
        Inl err \<Rightarrow> if err = ErrAccountNotFound then Inr 0 else Inl err
      | Inr account \<Rightarrow> Inr (Balance account))"

text \<open>
  \<open>AccountService.Recharge\<close>: reject a non-positive amount, make sure the account exists,
  credit it on the plain store handle.
\<close>

definition Recharge :: "db \<Rightarrow> int \<Rightarrow> int \<Rightarrow> error option \<times> db" where
  "Recharge d userID amount =
     (if amount \<le> 0 then (Some SvcRechargeAmountNotPositive, d)
      else case GetOrCreate d userID of
             (Inl err, d1) \<Rightarrow> (Some err, d1)
           | (Inr _, d1) \<Rightarrow> Increase d1 userID amount)"

section \<open>Background jobs\<close>

text \<open>
  \<open>PayingOrderCompensateJob.compensateOrder\<close>: the first ledger row of the order number
  decides. The function returns nothing; failures are logged, so the result is the store.
\<close>

definition compensateOrder :: "config \<Rightarrow> time \<Rightarrow> db \<Rightarrow> PayOrder \<Rightarrow> db" where
  "compensateOrder cfg now d order =
     (let txn = TransactionGetByOrderNo d (OrderNo order)
      in if txn \<noteq> None \<and> TxType (the txn) = TransactionTypePay
         then snd (UpdateStatus now d (OrderNo order) OrderStatusPaying OrderStatusPaid)
         else
           let orderTimeout = minutes (OrderTimeoutMinutes cfg)
           in if Since now (CreatedAt order) > orderTimeout
              then snd (UpdateStatus now d (OrderNo order) OrderStatusPaying OrderStatusFailed)
              else d)"

text \<open>\<open>PayingOrderCompensateJob.compensatePayingOrders\<close>: one tick, batch size as a parameter.\<close>

definition compensatePayingOrders :: "config \<Rightarrow> time \<Rightarrow> nat \<Rightarrow> db \<Rightarrow> db" where
  "compensatePayingOrders cfg now batchSize d =
     fold (\<lambda>order acc. compensateOrder cfg now acc order)
          (GetPayingOrders d (now - 5 * Minute) batchSize) d"

text \<open>
  \<open>OutboxSender.sendMessage\<close>: \<open>published\<close> says whether \<open>mq.SendMessage\<close> returned no
  error. On failure the retry count is incremented, and the row is marked failed when the
  count of the message as it was read, plus one, reaches \<open>MaxRetryCount\<close>.
\<close>

definition sendMessage :: "config \<Rightarrow> bool \<Rightarrow> db \<Rightarrow> OutboxMessage \<Rightarrow> db" where
  "sendMessage cfg published d msg =
     (if published then OutboxUpdateStatus d (MsgID msg) OutboxStatusSent
      else
        let d1 = IncrementRetryCount d (MsgID msg)
        in if RetryCount msg + 1 \<ge> MaxRetryCount cfg then MarkAsFailed d1 (MsgID msg)
           else d1)"

section \<open>Order service\<close>

text \<open>\<open>OrderService.CancelOrder\<close>: read the order, then request current status to CANCELLED.\<close>

definition CancelOrder :: "time \<Rightarrow> db \<Rightarrow> string \<Rightarrow> error option \<times> db" where
  "CancelOrder now d orderNo =
     (case GetByOrderNo d orderNo of
        Inl err \<Rightarrow> (Some err, d)
      | Inr order \<Rightarrow> UpdateStatus now d orderNo (Status order) OrderStatusCancelled)"

section \<open>Example states\<close>

text \<open>
  A configuration, three environments (each with fresh identifiers), a store holding one
  account with balance 1000, the same store after user 7 paid 300 for request \<open>R1\<close>, and
  after that order was refunded.
\<close>

definition cfg0 :: config where
  "cfg0 = \<lparr>OrderTimeoutMinutes = 30, MaxRetryCount = 3, PayResultTopic = ''pay-result''\<rparr>"

definition env1 :: env where
  "env1 = \<lparr>Now = 1000, GenOrderNo = ''PAY1'', GenTransactionNo = ''TXN1'',
            GenRefundNo = ''REF0'', LockResult = None, JsonPayload = ''{}''\<rparr>"

definition env2 :: env where
  "env2 = \<lparr>Now = 2000, GenOrderNo = ''PAY2'', GenTransactionNo = ''TXN2'',
            GenRefundNo = ''REF1'', LockResult = None, JsonPayload = ''{}''\<rparr>"

definition env3 :: env where
  "env3 = \<lparr>Now = 3000, GenOrderNo = ''PAY3'', GenTransactionNo = ''TXN3'',
            GenRefundNo = ''REF2'', LockResult = None, JsonPayload = ''{}''\<rparr>"

definition acct7 :: "int \<Rightarrow> int \<Rightarrow> Account" where
  "acct7 b v = \<lparr>AccUserID = 7, Balance = b, FrozenAmount = 0, Version = v\<rparr>"

definition db0 :: db where
  "db0 = \<lparr>accounts = [acct7 1000 0], orders = [], ledger = [], outbox = []\<rparr>"

definition req1 :: PayRequest where
  "req1 = \<lparr>ReqRequestID = ''R1'', ReqUserID = 7, ReqAmount = 300,
           ReqProductType = ''COIN_VIDEO'', ReqProductID = ''v1''\<rparr>"

definition rf1 :: RefundRequest where
  "rf1 = \<lparr>RfRequestID = ''F1'', RfOrderNo = ''PAY1'', RfReason = ''x''\<rparr>"

definition order1 :: "string \<Rightarrow> time \<Rightarrow> PayOrder" where
  "order1 st upd = \<lparr>OrderNo = ''PAY1'', RequestID = ''R1'', UserID = 7, Amount = 300,
      ProductType = ''COIN_VIDEO'', ProductID = ''v1'', Status = st,
      ExpiredAt = 1800000001000, PaidAt = Some 1000, CreatedAt = 1000, UpdatedAt = upd\<rparr>"

definition pay_row1 :: AccountTransaction where
  "pay_row1 = \<lparr>TransactionNo = ''TXN1'', TxUserID = 7, TxOrderNo = ''PAY1'', TxAmount = - 300,
      TxType = ''PAY'', BalanceBefore = 1000, BalanceAfter = 700,
      Remark = ''pay-COIN_VIDEO-v1''\<rparr>"

definition refund_row1 :: AccountTransaction where
  "refund_row1 = \<lparr>TransactionNo = ''TXN2'', TxUserID = 7, TxOrderNo = ''PAY1'', TxAmount = 300,
      TxType = ''REFUND'', BalanceBefore = 700, BalanceAfter = 1000,
      Remark = ''refund-REF1-x''\<rparr>"

definition outbox_row :: "int \<Rightarrow> string \<Rightarrow> string \<Rightarrow> int \<Rightarrow> OutboxMessage" where
  "outbox_row i k st n = \<lparr>MsgID = i, MessageKey = k, Topic = ''pay-result'', Payload = ''{}'',
      MsgStatus = st, RetryCount = n\<rparr>"

definition db_paid :: db where
  "db_paid = \<lparr>accounts = [acct7 700 1], orders = [order1 ''PAID'' 1000],
      ledger = [pay_row1], outbox = [outbox_row 1 ''PAY1'' ''PENDING'' 0]\<rparr>"

definition db_refunded :: db where
  "db_refunded = \<lparr>accounts = [acct7 1000 2], orders = [order1 ''REFUNDED'' 2000],
      ledger = [pay_row1, refund_row1],
      outbox = [outbox_row 1 ''PAY1'' ''PENDING'' 0, outbox_row 2 ''REF1'' ''PENDING'' 0]\<rparr>"

text \<open>The sum of a user's ledger amounts.\<close>

definition ledger_sum :: "db \<Rightarrow> int \<Rightarrow> int" where
  "ledger_sum d userID = sum_list (map TxAmount (filter (\<lambda>r. TxUserID r = userID) (ledger d)))"

definition db_created :: db where
  "db_created = \<lparr>accounts = [], orders = [order1 ''CREATED'' 1000], ledger = [], outbox = []\<rparr>"

definition db_retry2 :: db where
  "db_retry2 = \<lparr>accounts = [], orders = [], ledger = [],
      outbox = [outbox_row 1 ''PAY1'' ''PENDING'' 2]\<rparr>"

section \<open>Account invariant\<close>

text \<open>Invariant I2 on one row and on the table: balance and frozen amount are not negative.\<close>

definition account_ok :: "Account \<Rightarrow> bool" where
  "account_ok a = (0 \<le> Balance a \<and> 0 \<le> FrozenAmount a)"

definition accounts_ok :: "db \<Rightarrow> bool" where
  "accounts_ok d = list_all account_ok (accounts d)"

text \<open>
  One balance mutation of a row: the balance moves by \<open>delta\<close>, the version goes up by one,
  nothing else changes.
\<close>

definition mutated_by :: "int \<Rightarrow> Account \<Rightarrow> Account \<Rightarrow> bool" where
  "mutated_by delta a a' =
     (AccUserID a' = AccUserID a \<and> Balance a' = Balance a + delta \<and>
      FrozenAmount a' = FrozenAmount a \<and> Version a' = Version a + 1)"

text \<open>
  A mutation of the table for one user: every row is either untouched or a row of that user
  mutated once, and at least one row is mutated.
\<close>

definition table_mutated :: "int \<Rightarrow> int \<Rightarrow> Account list \<Rightarrow> Account list \<Rightarrow> bool" where
  "table_mutated userID delta rows rows' =
     (list_all2 (\<lambda>a a'. a' = a \<or> (AccUserID a = userID \<and> mutated_by delta a a')) rows rows' \<and>
      list_ex (\<lambda>(a, a'). AccUserID a = userID \<and> mutated_by delta a a') (zip rows rows'))"

definition db_two_users :: db where
  "db_two_users = \<lparr>accounts = [acct7 1000 4, \<lparr>AccUserID = 8, Balance = 50, FrozenAmount = 0, Version = 1\<rparr>],
      orders = [], ledger = [], outbox = []\<rparr>"

section \<open>The rows a payment writes\<close>

text \<open>
  The order row as a successful \<open>Pay\<close> leaves it, the ledger row it appends (from the
  account as read before the transaction) and the outbox row, written out for the
  statements about \<open>Pay\<close>.
\<close>

definition paid_order :: "config \<Rightarrow> env \<Rightarrow> PayRequest \<Rightarrow> PayOrder" where
  "paid_order cfg e req =
     \<lparr>OrderNo = GenOrderNo e, RequestID = ReqRequestID req, UserID = ReqUserID req,
      Amount = ReqAmount req, ProductType = ReqProductType req, ProductID = ReqProductID req,
      Status = OrderStatusPaid, ExpiredAt = Now e + minutes (OrderTimeoutMinutes cfg),
      PaidAt = Some (Now e), CreatedAt = Now e, UpdatedAt = Now e\<rparr>"

definition pay_ledger_row :: "env \<Rightarrow> PayRequest \<Rightarrow> Account \<Rightarrow> AccountTransaction" where
  "pay_ledger_row e req account =
     \<lparr>TransactionNo = GenTransactionNo e, TxUserID = ReqUserID req, TxOrderNo = GenOrderNo e,
      TxAmount = - ReqAmount req, TxType = TransactionTypePay,
      BalanceBefore = Balance account, BalanceAfter = Balance account - ReqAmount req,
      Remark = ''pay-'' @ ReqProductType req @ ''-'' @ ReqProductID req\<rparr>"

definition pay_outbox_row :: "config \<Rightarrow> env \<Rightarrow> int \<Rightarrow> OutboxMessage" where
  "pay_outbox_row cfg e ident =
     \<lparr>MsgID = ident, MessageKey = GenOrderNo e, Topic = PayResultTopic cfg,
      Payload = JsonPayload e, MsgStatus = OutboxStatusPending, RetryCount = 0\<rparr>"

definition refund_ledger_row :: "env \<Rightarrow> RefundRequest \<Rightarrow> PayOrder \<Rightarrow> Account \<Rightarrow> AccountTransaction" where
  "refund_ledger_row e req order account =
     \<lparr>TransactionNo = GenTransactionNo e, TxUserID = UserID order, TxOrderNo = RfOrderNo req,
      TxAmount = Amount order, TxType = TransactionTypeRefund,
      BalanceBefore = Balance account, BalanceAfter = Balance account + Amount order,
      Remark = ''refund-'' @ GenRefundNo e @ ''-'' @ RfReason req\<rparr>"

section \<open>The compensation job's reading of the ledger\<close>

text \<open>
  The test of \<open>compensateOrder\<close> (line 159): \<open>GetByOrderNo\<close> found a ledger row for the
  order number, and that row, the first one, has type PAY.
\<close>

definition first_ledger_row_is_pay :: "db \<Rightarrow> string \<Rightarrow> bool" where
  "first_ledger_row_is_pay d orderNo =
     (case TransactionGetByOrderNo d orderNo of
        None \<Rightarrow> False
      | Some row \<Rightarrow> TxType row = TransactionTypePay)"

text \<open>The claim's test: some ledger row of the order number is a PAY row.\<close>

definition pay_row_exists :: "db \<Rightarrow> string \<Rightarrow> bool" where
  "pay_row_exists d orderNo =
     list_ex (\<lambda>r. TxOrderNo r = orderNo \<and> TxType r = TransactionTypePay) (ledger d)"

text \<open>
  The ledger rows of an order number, if there are any, start with a PAY row. The service
  keeps the ledger so (\<open>ledger_ok\<close> below): \<open>Pay\<close> writes the PAY row when it creates the
  order, and \<open>Refund\<close> writes its row only for an order it found PAID.
\<close>

definition ledger_starts_with_pay :: "db \<Rightarrow> string \<Rightarrow> bool" where
  "ledger_starts_with_pay d orderNo =
     (case TransactionGetByOrderNo d orderNo of
        None \<Rightarrow> True
      | Some row \<Rightarrow> TxType row = TransactionTypePay)"

text \<open>
  The ledger as the service keeps it: the rows of every order number start with a PAY row,
  and every order in status PAID has a ledger row.
\<close>

definition ledger_ok :: "db \<Rightarrow> bool" where
  "ledger_ok d =
     (list_all (\<lambda>row. ledger_starts_with_pay d (TxOrderNo row)) (ledger d) \<and>
      list_all (\<lambda>r. Status r = OrderStatusPaid \<longrightarrow>
                  list_ex (\<lambda>row. TxOrderNo row = OrderNo r) (ledger d)) (orders d))"

text \<open>A configured number of minutes whose nanoseconds fit a 64-bit duration.\<close>

definition duration_fits :: "int \<Rightarrow> bool" where
  "duration_fits n = (- (2 ^ 63) \<le> n * Minute \<and> n * Minute < 2 ^ 63)"

definition cfg_big :: config where
  "cfg_big = \<lparr>OrderTimeoutMinutes = 153722868, MaxRetryCount = 3,
      PayResultTopic = ''pay-result''\<rparr>"

definition db_empty :: db where
  "db_empty = \<lparr>accounts = [], orders = [], ledger = [], outbox = []\<rparr>"

text \<open>
  A store in which order \<open>PAY1\<close> is PAYING (created at 1000) and the ledger holds a REFUND
  row and then a PAY row for it; a PAYING order with its PAY row; one with no ledger row.
\<close>

definition db_paying_refund_first :: db where
  "db_paying_refund_first = \<lparr>accounts = [acct7 700 1], orders = [order1 ''PAYING'' 1000],
      ledger = [refund_row1, pay_row1], outbox = []\<rparr>"

definition db_paying_paid :: db where
  "db_paying_paid = \<lparr>accounts = [acct7 700 1], orders = [order1 ''PAYING'' 1000],
      ledger = [pay_row1], outbox = []\<rparr>"

definition db_paying_unpaid :: db where
  "db_paying_unpaid = \<lparr>accounts = [acct7 1000 0], orders = [order1 ''PAYING'' 1000],
      ledger = [], outbox = []\<rparr>"

section \<open>Basic facts\<close>

lemmas OrderStatus_defs =
  OrderStatusCreated_def OrderStatusPaying_def OrderStatusPaid_def OrderStatusFailed_def
  OrderStatusClosed_def OrderStatusCancelled_def OrderStatusRefunding_def
  OrderStatusRefunded_def

lemmas TransactionType_defs =
  TransactionTypeRecharge_def TransactionTypePay_def TransactionTypeRefund_def

lemmas OutboxStatus_defs = OutboxStatusPending_def OutboxStatusSent_def OutboxStatusFailed_def

lemma update_where_none: "rows_affected P rows = 0 \<Longrightarrow> update_where P f rows = rows"
  by (induction rows) (auto simp: update_where_def rows_affected_def split: if_splits)

lemma rows_affected_0_iff: "rows_affected P rows = 0 \<longleftrightarrow> (\<forall>r \<in> set rows. \<not> P r)"
  by (auto simp: rows_affected_def filter_empty_conv)

lemma find_Some_rows_affected: "find P rows = Some r \<Longrightarrow> rows_affected P rows \<noteq> 0"
  by (auto simp: rows_affected_0_iff find_Some_iff)

lemma CanTransitionTo_edges:
  "CanTransitionTo f t \<longleftrightarrow>
     (f, t) \<in> {(''CREATED'', ''PAYING''), (''CREATED'', ''CLOSED''), (''CREATED'', ''CANCELLED''),
               (''PAYING'', ''PAID''), (''PAYING'', ''FAILED''),
               (''PAID'', ''REFUNDING''), (''REFUNDING'', ''REFUNDED'')}"
  by (auto simp: CanTransitionTo_def ValidStatusTransitions_def OrderStatus_defs
      split: option.splits if_splits)

lemma CanTransitionTo_Cancelled: "CanTransitionTo f OrderStatusCancelled \<longleftrightarrow> f = OrderStatusCreated"
  by (auto simp: CanTransitionTo_edges OrderStatus_defs)

lemma find_map_key:
  "(\<And>x. K (g x) = K x) \<Longrightarrow> find K (map g rows) = map_option g (find K rows)"
  by (induction rows) auto

lemma find_update_where:
  "(\<And>x. K (f x) = K x) \<Longrightarrow>
   find K (update_where P f rows) = map_option (\<lambda>r. if P r then f r else r) (find K rows)"
  unfolding update_where_def by (rule find_map_key) simp

lemma GetByOrderNo_UpdateStatus:
  assumes "GetByOrderNo d no = Inr order" and "Status order = f" and "CanTransitionTo f t"
  shows "UpdateStatus now d no f t =
           (None, d\<lparr>orders := update_where (\<lambda>r. OrderNo r = no \<and> Status r = f)
              (\<lambda>r. if t = OrderStatusPaid
                    then r\<lparr>Status := t, PaidAt := Some now, UpdatedAt := now\<rparr>
                    else r\<lparr>Status := t, UpdatedAt := now\<rparr>) (orders d)\<rparr>)"
    and "GetByOrderNo (snd (UpdateStatus now d no f t)) no =
           Inr (if t = OrderStatusPaid
                then order\<lparr>Status := t, PaidAt := Some now, UpdatedAt := now\<rparr>
                else order\<lparr>Status := t, UpdatedAt := now\<rparr>)"
proof -
  from assms(1) have fnd: "find (\<lambda>r. OrderNo r = no) (orders d) = Some order"
    by (simp add: GetByOrderNo_def split: option.splits)
  then have key: "OrderNo order = no" and mem: "order \<in> set (orders d)"
    by (auto simp: find_Some_iff)
  with assms(2) have "rows_affected (\<lambda>r. OrderNo r = no \<and> Status r = f) (orders d) \<noteq> 0"
    by (auto simp: rows_affected_0_iff)
  with assms(3) show upd: "UpdateStatus now d no f t =
           (None, d\<lparr>orders := update_where (\<lambda>r. OrderNo r = no \<and> Status r = f)
              (\<lambda>r. if t = OrderStatusPaid
                    then r\<lparr>Status := t, PaidAt := Some now, UpdatedAt := now\<rparr>
                    else r\<lparr>Status := t, UpdatedAt := now\<rparr>) (orders d)\<rparr>)"
    by (simp add: UpdateStatus_def Let_def)
  show "GetByOrderNo (snd (UpdateStatus now d no f t)) no =
           Inr (if t = OrderStatusPaid
                then order\<lparr>Status := t, PaidAt := Some now, UpdatedAt := now\<rparr>
                else order\<lparr>Status := t, UpdatedAt := now\<rparr>)"
    using fnd key assms(2)
    by (simp add: upd GetByOrderNo_def find_update_where)
qed

section \<open>The order state machine\<close>

text \<open>
  Claim C2. The transition check \<open>CanTransitionTo\<close> accepts a pair of statuses exactly when
  it is one of the seven edges CREATED to PAYING, CLOSED or CANCELLED, PAYING to PAID or
  FAILED, PAID to REFUNDING, REFUNDING to REFUNDED. \<open>UpdateStatus\<close> answers
  \<open>ErrOrderStatusInvalid\<close> and leaves the store as it was both for a pair outside the table
  and when no row has the order number and the expected status; for an edge of the table
  and a matching row it returns no error.
\<close>

theorem order_transition_guard:
  "(CanTransitionTo f t \<longleftrightarrow>
      (f, t) \<in> {(''CREATED'', ''PAYING''), (''CREATED'', ''CLOSED''), (''CREATED'', ''CANCELLED''),
                (''PAYING'', ''PAID''), (''PAYING'', ''FAILED''),
                (''PAID'', ''REFUNDING''), (''REFUNDING'', ''REFUNDED'')})
   \<and> (\<not> CanTransitionTo f t \<longrightarrow>
        UpdateStatus now d no f t = (Some ErrOrderStatusInvalid, d))
   \<and> ((\<forall>r \<in> set (orders d). \<not> (OrderNo r = no \<and> Status r = f)) \<longrightarrow>
        UpdateStatus now d no f t = (Some ErrOrderStatusInvalid, d))
   \<and> (CanTransitionTo f t \<and> (\<exists>r \<in> set (orders d). OrderNo r = no \<and> Status r = f) \<longrightarrow>
        fst (UpdateStatus now d no f t) = None)"
proof -
  have zero: "UpdateStatus now d no f t = (Some ErrOrderStatusInvalid, d)"
    if "\<forall>r \<in> set (orders d). \<not> (OrderNo r = no \<and> Status r = f)"
  proof -
    from that have "rows_affected (\<lambda>r. OrderNo r = no \<and> Status r = f) (orders d) = 0"
      by (simp add: rows_affected_0_iff)
    then show ?thesis
      by (simp add: UpdateStatus_def Let_def update_where_none)
  qed
  have some: "fst (UpdateStatus now d no f t) = None"
    if "CanTransitionTo f t" "\<exists>r \<in> set (orders d). OrderNo r = no \<and> Status r = f"
  proof -
    from that(2) have "rows_affected (\<lambda>r. OrderNo r = no \<and> Status r = f) (orders d) \<noteq> 0"
      by (simp add: rows_affected_0_iff)
    with that(1) show ?thesis
      by (simp add: UpdateStatus_def Let_def)
  qed
  show ?thesis
    using zero some by (simp add: CanTransitionTo_edges UpdateStatus_def)
qed

theorem order_transition_guard_witness:
  "UpdateStatus 2000 db_created ''PAY1'' ''CREATED'' ''PAID''
      = (Some ErrOrderStatusInvalid, db_created)
   \<and> UpdateStatus 2000 db_created ''PAY1'' ''PAYING'' ''PAID''
      = (Some ErrOrderStatusInvalid, db_created)
   \<and> fst (UpdateStatus 2000 db_created ''PAY1'' ''CREATED'' ''PAYING'') = None"
  using order_transition_guard [of "''CREATED''" "''PAID''" 2000 db_created "''PAY1''"]
    order_transition_guard [of "''PAYING''" "''PAID''" 2000 db_created "''PAY1''"]
    order_transition_guard [of "''CREATED''" "''PAYING''" 2000 db_created "''PAY1''"]
  by (simp add: db_created_def order1_def)

text \<open>
  Claim C10. \<open>CancelOrder\<close> returns no error exactly when the order exists and its current
  status is CREATED, and then the stored order is CANCELLED. In every failing call the
  store is unchanged; for an existing order in any other status (CANCELLED included) the
  error is \<open>ErrOrderStatusInvalid\<close>, because the requested transition from the current
  status to CANCELLED is not in the table.
\<close>

theorem CancelOrder_only_from_created:
  "(fst (CancelOrder now d no) = None \<longleftrightarrow>
      (\<exists>order. GetByOrderNo d no = Inr order \<and> Status order = OrderStatusCreated))
   \<and> (fst (CancelOrder now d no) \<noteq> None \<longrightarrow> snd (CancelOrder now d no) = d)
   \<and> (\<forall>order. GetByOrderNo d no = Inr order \<and> Status order \<noteq> OrderStatusCreated \<longrightarrow>
         CancelOrder now d no = (Some ErrOrderStatusInvalid, d))
   \<and> (\<forall>order. GetByOrderNo d no = Inr order \<and> Status order = OrderStatusCreated \<longrightarrow>
         GetByOrderNo (snd (CancelOrder now d no)) no =
           Inr (order\<lparr>Status := OrderStatusCancelled, UpdatedAt := now\<rparr>))"
proof (cases "GetByOrderNo d no")
  case (Inl err)
  then show ?thesis by (simp add: CancelOrder_def)
next
  case (Inr order)
  show ?thesis
  proof (cases "Status order = OrderStatusCreated")
    case True
    have can: "CanTransitionTo OrderStatusCreated OrderStatusCancelled"
      by (simp add: CanTransitionTo_Cancelled)
    from GetByOrderNo_UpdateStatus [OF Inr True can, of now] Inr True
    show ?thesis
      by (simp add: CancelOrder_def OrderStatus_defs)
  next
    case False
    then have "\<not> CanTransitionTo (Status order) OrderStatusCancelled"
      by (simp add: CanTransitionTo_Cancelled)
    with Inr False show ?thesis
      by (simp add: CancelOrder_def UpdateStatus_def)
  qed
qed

theorem CancelOrder_only_from_created_witness:
  "fst (CancelOrder 2000 db_created ''PAY1'') = None
   \<and> GetByOrderNo (snd (CancelOrder 2000 db_created ''PAY1'')) ''PAY1''
       = Inr (order1 ''CANCELLED'' 2000)
   \<and> CancelOrder 2000 db_paid ''PAY1'' = (Some ErrOrderStatusInvalid, db_paid)
   \<and> CancelOrder 2000 (snd (CancelOrder 2000 db_created ''PAY1'')) ''PAY1''
       = (Some ErrOrderStatusInvalid, snd (CancelOrder 2000 db_created ''PAY1''))"
proof -
  have a: "GetByOrderNo db_created ''PAY1'' = Inr (order1 ''CREATED'' 1000)"
    by (simp add: GetByOrderNo_def db_created_def order1_def)
  have b: "GetByOrderNo db_paid ''PAY1'' = Inr (order1 ''PAID'' 1000)"
    by (simp add: GetByOrderNo_def db_paid_def order1_def)
  have c: "GetByOrderNo (snd (CancelOrder 2000 db_created ''PAY1'')) ''PAY1''
       = Inr (order1 ''CANCELLED'' 2000)"
    using CancelOrder_only_from_created [of 2000 db_created "''PAY1''"] a
    by (simp add: order1_def OrderStatus_defs)
  show ?thesis
    using CancelOrder_only_from_created [of 2000 db_created "''PAY1''"]
      CancelOrder_only_from_created [of 2000 db_paid "''PAY1''"]
      CancelOrder_only_from_created [of 2000 "snd (CancelOrder 2000 db_created ''PAY1'')" "''PAY1''"]
      a b c
    by (simp add: order1_def OrderStatus_defs)
qed

lemmas example_defs = cfg0_def env1_def env2_def env3_def acct7_def db0_def req1_def rf1_def
  order1_def pay_row1_def refund_row1_def outbox_row_def db_paid_def db_refunded_def
  db_created_def db_retry2_def

lemmas repository_defs = GetByRequestID_def GetByOrderNo_def GetOrCreate_def GetByUserID_def
  OrderCreate_def UpdateStatus_def Deduct_def Increase_def TransactionCreate_def OutboxCreate_def
  next_id_def update_where_def rows_affected_def Transaction_def CanTransitionTo_def
  ValidStatusTransitions_def GetByUserIDAndOrderNo_def TransactionGetByOrderNo_def
  OutboxUpdateStatus_def IncrementRetryCount_def MarkAsFailed_def
  OrderStatus_defs TransactionType_defs OutboxStatus_defs Minute_def minutes_def wrap64_def
  Since_def

section \<open>Concrete runs\<close>

lemma Pay_example:
  "Pay cfg0 env1 db0 req1 =
     (Inr \<lparr>RespOrderNo = ''PAY1'', RespStatus = ''PAID'', RespAmount = 300,
           RespMessage = MsgPaySuccess\<rparr>, db_paid)"
  by (simp add: Pay_def PayTx_def example_defs repository_defs Let_def)

lemma Pay_replay_example:
  "Pay cfg0 env2 db_paid req1 =
     (Inr \<lparr>RespOrderNo = ''PAY1'', RespStatus = ''PAID'', RespAmount = 300,
           RespMessage = MsgOrderExists\<rparr>, db_paid)"
  by (simp add: Pay_def existing_response_def example_defs repository_defs)

lemma Refund_example:
  "Refund cfg0 env2 db_paid rf1 =
     (Inr \<lparr>RfRespRefundNo = ''REF1'', RfRespOrderNo = ''PAY1'', RfRespAmount = 300,
           RfRespStatus = ''REFUNDED'', RfRespMessage = MsgRefundSuccess\<rparr>, db_refunded)"
  by (simp add: Refund_def Refund_locked_def RefundTx_def example_defs repository_defs Let_def)

lemma sendMessage_outbox:
  "outbox (sendMessage cfg published d msg) =
     map (\<lambda>m. if MsgID m = MsgID msg then
                 (if published then m\<lparr>MsgStatus := OutboxStatusSent\<rparr>
                  else if RetryCount msg + 1 \<ge> MaxRetryCount cfg
                       then m\<lparr>MsgStatus := OutboxStatusFailed, RetryCount := RetryCount m + 2\<rparr>
                       else m\<lparr>RetryCount := RetryCount m + 1\<rparr>)
               else m) (outbox d)"
  by (simp add: sendMessage_def OutboxUpdateStatus_def IncrementRetryCount_def MarkAsFailed_def
      update_where_def Let_def)

text \<open>
  Claim C1. Money conservation fails on the recharge path: \<open>Recharge\<close> credits the account
  and appends no ledger row. In the store \<open>db0\<close> user 7 has balance 1000 and an empty ledger;
  after a successful recharge of 100 the balance is 1100 and the ledger is still empty, so
  the balance is no longer the initial value plus the sum of the user's ledger amounts.
\<close>

theorem Recharge_appends_no_ledger_row:
  "fst (Recharge db0 7 100) = None
   \<and> GetBalance db0 7 = Inr 1000
   \<and> ledger_sum db0 7 = 0
   \<and> GetBalance (snd (Recharge db0 7 100)) 7 = Inr 1100
   \<and> ledger (snd (Recharge db0 7 100)) = []
   \<and> ledger_sum (snd (Recharge db0 7 100)) 7 = 0"
  by (simp add: Recharge_def GetBalance_def ledger_sum_def example_defs repository_defs Let_def)

text \<open>
  Claim C4. The first status check of \<open>Refund\<close> has no exception for a refunded order.
  User 7 pays 300 (store \<open>db_paid\<close>), the order is refunded (store \<open>db_refunded\<close>, where the
  order is REFUNDED and a REFUND ledger row exists), and the refund is requested again:
  the answer is the error that the status REFUNDED does not allow a refund, not the
  refunded result.
\<close>

theorem Refund_again_is_rejected:
  "snd (Pay cfg0 env1 db0 req1) = db_paid
   \<and> snd (Refund cfg0 env2 db_paid rf1) = db_refunded
   \<and> Refund cfg0 env3 db_refunded rf1 = (Inl (SvcRefundNotAllowed ''REFUNDED''), db_refunded)"
  by (simp add: Pay_example Refund_example)
    (simp add: Refund_def example_defs repository_defs)

text \<open>
  Claim C9. On the failure that reaches \<open>MaxRetryCount\<close> the relay adds two to the retry
  count, not one: \<open>sendMessage\<close> calls \<open>IncrementRetryCount\<close> and then \<open>MarkAsFailed\<close>,
  which increments again. With \<open>MaxRetryCount = 3\<close> and a pending row whose retry count
  is 2, a failed publish leaves the row FAILED with retry count 4.
\<close>

theorem sendMessage_final_failure_adds_two:
  "MaxRetryCount cfg0 = 3
   \<and> outbox db_retry2 = [outbox_row 1 ''PAY1'' ''PENDING'' 2]
   \<and> outbox (sendMessage cfg0 False db_retry2 (outbox_row 1 ''PAY1'' ''PENDING'' 2))
       = [outbox_row 1 ''PAY1'' ''FAILED'' 4]"
  by (simp add: sendMessage_def example_defs repository_defs Let_def)

section \<open>The account store\<close>

lemma Deduct_accounts:
  "accounts (snd (Deduct rdb tx u amt v)) =
     update_where (\<lambda>a. AccUserID a = u \<and> amt \<le> Balance a \<and> Version a = v)
       (\<lambda>a. a\<lparr>Balance := Balance a - amt, Version := Version a + 1\<rparr>) (accounts tx)"
  by (simp add: Deduct_def Let_def split: sum.splits)

lemma Deduct_other_tables:
  "orders (snd (Deduct rdb tx u amt v)) = orders tx"
  "ledger (snd (Deduct rdb tx u amt v)) = ledger tx"
  "outbox (snd (Deduct rdb tx u amt v)) = outbox tx"
  by (simp_all add: Deduct_def Let_def split: sum.splits)

lemma Deduct_success_iff:
  "fst (Deduct rdb tx u amt v) = None \<longleftrightarrow>
     rows_affected (\<lambda>a. AccUserID a = u \<and> amt \<le> Balance a \<and> Version a = v) (accounts tx) \<noteq> 0"
  by (simp add: Deduct_def Let_def split: sum.splits)

lemma Deduct_failure_unchanged:
  assumes "fst (Deduct rdb tx u amt v) \<noteq> None"
  shows "snd (Deduct rdb tx u amt v) = tx"
proof -
  from assms have z: "rows_affected (\<lambda>a. AccUserID a = u \<and> amt \<le> Balance a \<and> Version a = v)
      (accounts tx) = 0"
    by (simp add: Deduct_success_iff)
  show ?thesis
    by (simp add: Deduct_def Let_def update_where_none [OF z] split: sum.splits)
qed

lemma Deduct_failure_error:
  assumes "fst (Deduct rdb tx u amt v) \<noteq> None" and "GetByUserID rdb u = Inr acc"
  shows "fst (Deduct rdb tx u amt v) =
           Some (if Balance acc < amt then ErrBalanceNotEnough else ErrOptimisticLock)"
  using assms by (simp add: Deduct_def Let_def split: if_splits)

lemma GetByUserID_Inr:
  "GetByUserID d u = Inr acc \<Longrightarrow> acc \<in> set (accounts d) \<and> AccUserID acc = u"
  by (auto simp: GetByUserID_def find_Some_iff split: option.splits)

lemma find_Some_set: "find P rows = Some r \<Longrightarrow> r \<in> set rows \<and> P r"
  by (auto simp: find_Some_iff)

lemma Deduct_table_mutated:
  assumes "fst (Deduct rdb tx u amt v) = None"
  shows "table_mutated u (- amt) (accounts tx) (accounts (snd (Deduct rdb tx u amt v)))"
proof -
  let ?cond = "\<lambda>a. AccUserID a = u \<and> amt \<le> Balance a \<and> Version a = v"
  let ?upd = "\<lambda>a. a\<lparr>Balance := Balance a - amt, Version := Version a + 1\<rparr>"
  from assms obtain a where a: "a \<in> set (accounts tx)" "?cond a"
    by (auto simp: Deduct_success_iff rows_affected_0_iff)
  have "list_all2 (\<lambda>a a'. a' = a \<or> (AccUserID a = u \<and> mutated_by (- amt) a a'))
          (accounts tx) (update_where ?cond ?upd (accounts tx))"
    by (simp add: update_where_def list_all2_map2 list_all2_same mutated_by_def)
  moreover have "list_ex (\<lambda>(a, a'). AccUserID a = u \<and> mutated_by (- amt) a a')
          (zip (accounts tx) (update_where ?cond ?upd (accounts tx)))"
    using a by (auto simp: update_where_def list_ex_iff zip_map2 mutated_by_def
        zip_same_conv_map intro!: bexI [of _ a])
  ultimately show ?thesis
    by (simp add: table_mutated_def Deduct_accounts)
qed

text \<open>
  Claim C3. \<open>Deduct\<close> succeeds exactly when a row of the user has balance at least the
  amount and the expected version; a successful call mutates rows of that user only, each by
  minus the amount with the version up by one, and every row it changes ends with a balance
  that is not negative. A failing call changes nothing, and the account read again decides
  the error: \<open>ErrBalanceNotEnough\<close> when its balance is below the amount,
  \<open>ErrOptimisticLock\<close> otherwise; when the read is from the same store,
  \<open>ErrOptimisticLock\<close> means the balance was sufficient and the version differed.
\<close>

theorem Deduct_conditional:
  "(fst (Deduct rdb tx u amt v) = None \<longleftrightarrow>
      (\<exists>a \<in> set (accounts tx). AccUserID a = u \<and> amt \<le> Balance a \<and> Version a = v))
   \<and> (fst (Deduct rdb tx u amt v) = None \<longrightarrow>
        table_mutated u (- amt) (accounts tx) (accounts (snd (Deduct rdb tx u amt v)))
        \<and> list_all2 (\<lambda>a a'. a' = a \<or> 0 \<le> Balance a')
             (accounts tx) (accounts (snd (Deduct rdb tx u amt v))))
   \<and> (fst (Deduct rdb tx u amt v) \<noteq> None \<longrightarrow> snd (Deduct rdb tx u amt v) = tx)
   \<and> (\<forall>acc. fst (Deduct rdb tx u amt v) \<noteq> None \<and> GetByUserID rdb u = Inr acc \<longrightarrow>
         fst (Deduct rdb tx u amt v) =
           Some (if Balance acc < amt then ErrBalanceNotEnough else ErrOptimisticLock))
   \<and> (\<forall>acc. GetByUserID tx u = Inr acc \<and> fst (Deduct tx tx u amt v) = Some ErrOptimisticLock \<longrightarrow>
         amt \<le> Balance acc \<and> Version acc \<noteq> v)"
proof -
  let ?cond = "\<lambda>a. AccUserID a = u \<and> amt \<le> Balance a \<and> Version a = v"
  let ?upd = "\<lambda>a. a\<lparr>Balance := Balance a - amt, Version := Version a + 1\<rparr>"
  have iff: "fst (Deduct rdb tx u amt v) = None \<longleftrightarrow> (\<exists>a \<in> set (accounts tx). ?cond a)"
    by (auto simp: Deduct_success_iff rows_affected_0_iff)
  have mut: "table_mutated u (- amt) (accounts tx) (accounts (snd (Deduct rdb tx u amt v)))"
    if "fst (Deduct rdb tx u amt v) = None"
    using that by (rule Deduct_table_mutated)
  have nonneg: "list_all2 (\<lambda>a a'. a' = a \<or> 0 \<le> Balance a')
             (accounts tx) (accounts (snd (Deduct rdb tx u amt v)))"
    by (simp add: Deduct_accounts update_where_def list_all2_map2 list_all2_same)
  have conflict: "amt \<le> Balance acc \<and> Version acc \<noteq> v"
    if "GetByUserID tx u = Inr acc" "fst (Deduct tx tx u amt v) = Some ErrOptimisticLock" for acc
  proof -
    from that(2) have "fst (Deduct tx tx u amt v) \<noteq> None" by simp
    from Deduct_failure_error [OF this that(1)] that(2)
    have bal: "amt \<le> Balance acc" by (simp split: if_splits)
    have "fst (Deduct tx tx u amt v) = None" if "\<exists>a \<in> set (accounts tx). ?cond a"
      using that by (auto simp: Deduct_success_iff rows_affected_0_iff)
    with that(2) have "\<not> (\<exists>a \<in> set (accounts tx). ?cond a)"
      by auto
    with GetByUserID_Inr [OF that(1)] bal show ?thesis by auto
  qed
  show ?thesis
    using iff mut nonneg conflict Deduct_failure_unchanged Deduct_failure_error
    by (intro conjI allI impI) (blast | simp)+
qed

theorem Deduct_conditional_witness:
  "Deduct db0 db0 7 300 0 = (None, db0\<lparr>accounts := [acct7 700 1]\<rparr>)
   \<and> Deduct db0 db0 7 2000 0 = (Some ErrBalanceNotEnough, db0)
   \<and> Deduct db0 db0 7 300 5 = (Some ErrOptimisticLock, db0)
   \<and> Balance (acct7 1000 0) \<ge> 300 \<and> Version (acct7 1000 0) \<noteq> 5"
proof -
  have acc: "GetByUserID db0 7 = Inr (acct7 1000 0)"
    by (simp add: GetByUserID_def db0_def acct7_def)
  have ok: "fst (Deduct db0 db0 7 300 0) = None"
    using Deduct_conditional [of db0 db0 7 300 0] by (simp add: db0_def acct7_def)
  have low: "fst (Deduct db0 db0 7 2000 0) \<noteq> None"
    using Deduct_conditional [of db0 db0 7 2000 0] by (simp add: db0_def acct7_def)
  have ver: "fst (Deduct db0 db0 7 300 5) \<noteq> None"
    using Deduct_conditional [of db0 db0 7 300 5] by (simp add: db0_def acct7_def)
  have "Deduct db0 db0 7 2000 0 = (Some ErrBalanceNotEnough, db0)"
    using Deduct_conditional [of db0 db0 7 2000 0] low acc
    by (simp add: prod_eq_iff acct7_def)
  moreover have v: "Deduct db0 db0 7 300 5 = (Some ErrOptimisticLock, db0)"
    using Deduct_conditional [of db0 db0 7 300 5] ver acc
    by (simp add: prod_eq_iff acct7_def)
  moreover have "Balance (acct7 1000 0) \<ge> 300 \<and> Version (acct7 1000 0) \<noteq> 5"
    using Deduct_conditional [of db0 db0 7 300 5] acc v by simp
  moreover have "Deduct db0 db0 7 300 0 = (None, db0\<lparr>accounts := [acct7 700 1]\<rparr>)"
    using ok by (simp add: Deduct_def Let_def db0_def acct7_def update_where_def rows_affected_def)
  ultimately show ?thesis by simp
qed

lemma Increase_accounts:
  "accounts (snd (Increase tx u amt)) =
     update_where (\<lambda>a. AccUserID a = u)
       (\<lambda>a. a\<lparr>Balance := Balance a + amt, Version := Version a + 1\<rparr>) (accounts tx)"
  by (simp add: Increase_def Let_def)

lemma Increase_other_tables:
  "orders (snd (Increase tx u amt)) = orders tx"
  "ledger (snd (Increase tx u amt)) = ledger tx"
  "outbox (snd (Increase tx u amt)) = outbox tx"
  by (simp_all add: Increase_def Let_def)

lemma Increase_success_iff:
  "fst (Increase tx u amt) = None \<longleftrightarrow> (\<exists>a \<in> set (accounts tx). AccUserID a = u)"
  by (auto simp: Increase_def Let_def rows_affected_0_iff)

lemma accounts_ok_update_where:
  assumes "list_all account_ok rows" and "\<And>a. P a \<Longrightarrow> account_ok a \<Longrightarrow> account_ok (f a)"
  shows "list_all account_ok (update_where P f rows)"
  using assms by (auto simp: update_where_def list_all_iff)

lemma Deduct_accounts_ok: "accounts_ok d \<Longrightarrow> accounts_ok (snd (Deduct rdb d u amt v))"
  unfolding accounts_ok_def Deduct_accounts
  by (rule accounts_ok_update_where) (auto simp: account_ok_def)

lemma Increase_accounts_ok:
  "accounts_ok d \<Longrightarrow> 0 \<le> amt \<Longrightarrow> accounts_ok (snd (Increase d u amt))"
  unfolding accounts_ok_def Increase_accounts
  by (rule accounts_ok_update_where) (auto simp: account_ok_def)

lemma GetOrCreate_accounts:
  "accounts (snd (GetOrCreate d u)) =
     (if \<exists>a \<in> set (accounts d). AccUserID a = u then accounts d
      else accounts d @ [\<lparr>AccUserID = u, Balance = 0, FrozenAmount = 0, Version = 0\<rparr>])"
  by (auto simp: GetOrCreate_def GetByUserID_def Let_def find_None_iff
      split: option.splits sum.splits dest: find_Some_set)

lemma GetOrCreate_other_tables:
  "orders (snd (GetOrCreate d u)) = orders d"
  "ledger (snd (GetOrCreate d u)) = ledger d"
  "outbox (snd (GetOrCreate d u)) = outbox d"
  by (auto simp: GetOrCreate_def Let_def split: sum.splits)

lemma GetOrCreate_accounts_ok: "accounts_ok d \<Longrightarrow> accounts_ok (snd (GetOrCreate d u))"
  by (simp add: accounts_ok_def GetOrCreate_accounts account_ok_def)

lemma Recharge_snd:
  "snd (Recharge d u amt) =
     (if amt \<le> 0 then d else snd (Increase (snd (GetOrCreate d u)) u amt))"
  by (auto simp: Recharge_def GetOrCreate_def GetByUserID_def Let_def Increase_def
      rows_affected_def find_None_iff split: prod.splits sum.splits option.splits)

lemma Recharge_accounts_ok: "accounts_ok d \<Longrightarrow> accounts_ok (snd (Recharge d u amt))"
  by (simp add: Recharge_snd Increase_accounts_ok GetOrCreate_accounts_ok)

lemma Increase_table_mutated:
  assumes "fst (Increase d u amt) = None"
  shows "table_mutated u amt (accounts d) (accounts (snd (Increase d u amt)))"
proof -
  from assms obtain a where a: "a \<in> set (accounts d)" "AccUserID a = u"
    by (auto simp: Increase_success_iff)
  let ?upd = "\<lambda>a. a\<lparr>Balance := Balance a + amt, Version := Version a + 1\<rparr>"
  have "list_all2 (\<lambda>a a'. a' = a \<or> (AccUserID a = u \<and> mutated_by amt a a'))
          (accounts d) (update_where (\<lambda>a. AccUserID a = u) ?upd (accounts d))"
    by (simp add: update_where_def list_all2_map2 list_all2_same mutated_by_def)
  moreover have "list_ex (\<lambda>(a, a'). AccUserID a = u \<and> mutated_by amt a a')
          (zip (accounts d) (update_where (\<lambda>a. AccUserID a = u) ?upd (accounts d)))"
    using a by (auto simp: update_where_def list_ex_iff zip_map2 mutated_by_def
        zip_same_conv_map intro!: bexI [of _ a])
  ultimately show ?thesis
    by (simp add: table_mutated_def Increase_accounts)
qed

lemma Recharge_success:
  "0 < amt \<Longrightarrow> fst (Recharge d u amt) = None"
  by (auto simp: Recharge_def GetOrCreate_def GetByUserID_def Let_def Increase_def
      rows_affected_def find_None_iff filter_empty_conv find_Some_iff
      split: prod.splits sum.splits option.splits)

text \<open>
  Claim C6, as the code has it. \<open>Deduct\<close> (for any amount), \<open>GetOrCreate\<close>, \<open>Recharge\<close>
  (for any amount) and \<open>Increase\<close> of an amount that is not negative keep the balance and
  the frozen amount of every row from going negative. A successful \<open>Deduct\<close> or
  \<open>Increase\<close>, and a successful \<open>Recharge\<close> after its \<open>GetOrCreate\<close>, mutates rows of the
  user only and raises the version of each mutated row by exactly one.
\<close>

theorem account_invariant:
  "accounts_ok d \<Longrightarrow>
     accounts_ok (snd (Deduct rdb d u amt v))
     \<and> (0 \<le> amt \<longrightarrow> accounts_ok (snd (Increase d u amt)))
     \<and> accounts_ok (snd (GetOrCreate d u))
     \<and> accounts_ok (snd (Recharge d u amt))
     \<and> (fst (Deduct rdb d u amt v) = None \<longrightarrow>
          table_mutated u (- amt) (accounts d) (accounts (snd (Deduct rdb d u amt v))))
     \<and> (fst (Increase d u amt) = None \<longrightarrow>
          table_mutated u amt (accounts d) (accounts (snd (Increase d u amt))))
     \<and> (0 < amt \<longrightarrow> fst (Recharge d u amt) = None \<and>
          table_mutated u amt (accounts (snd (GetOrCreate d u))) (accounts (snd (Recharge d u amt))))"
proof -
  assume ok: "accounts_ok d"
  have rech: "fst (Recharge d u amt) = None \<and>
          table_mutated u amt (accounts (snd (GetOrCreate d u))) (accounts (snd (Recharge d u amt)))"
    if pos: "0 < amt"
  proof -
    have s: "fst (Recharge d u amt) = None" using pos by (rule Recharge_success)
    have "\<exists>a \<in> set (accounts (snd (GetOrCreate d u))). AccUserID a = u"
      by (auto simp: GetOrCreate_accounts)
    then have "fst (Increase (snd (GetOrCreate d u)) u amt) = None"
      by (simp add: Increase_success_iff)
    from Increase_table_mutated [OF this] pos s show ?thesis
      by (simp add: Recharge_snd)
  qed
  show ?thesis
    using ok rech
    by (simp add: Deduct_accounts_ok Increase_accounts_ok GetOrCreate_accounts_ok
        Recharge_accounts_ok Increase_table_mutated Deduct_table_mutated)
qed

theorem account_invariant_witness:
  "accounts_ok db_two_users
   \<and> fst (Deduct db_two_users db_two_users 7 300 4) = None
   \<and> accounts_ok (snd (Deduct db_two_users db_two_users 7 300 4))
   \<and> table_mutated 7 (- 300) (accounts db_two_users)
        (accounts (snd (Deduct db_two_users db_two_users 7 300 4)))
   \<and> fst (Increase db_two_users 7 300) = None
   \<and> accounts_ok (snd (Increase db_two_users 7 300))
   \<and> table_mutated 7 300 (accounts db_two_users) (accounts (snd (Increase db_two_users 7 300)))
   \<and> accounts_ok (snd (GetOrCreate db_two_users 9))
   \<and> fst (Recharge db_two_users 7 300) = None
   \<and> accounts_ok (snd (Recharge db_two_users 7 300))"
proof -
  have ok: "accounts_ok db_two_users"
    by (simp add: accounts_ok_def account_ok_def db_two_users_def acct7_def)
  have ded: "fst (Deduct db_two_users db_two_users 7 300 4) = None"
    by (simp add: Deduct_def Let_def rows_affected_def db_two_users_def acct7_def)
  have inc: "fst (Increase db_two_users 7 300) = None"
    by (simp add: Increase_def Let_def rows_affected_def db_two_users_def acct7_def)
  show ?thesis
    using account_invariant [OF ok, of db_two_users 7 300 4]
      account_invariant [OF ok, of db_two_users 9 300 4] ok ded inc
    by simp
qed

text \<open>
  Claim C6 as stated fails for the credit: \<open>Increase\<close> has no guard on the sign of the
  amount (its callers have: \<open>Recharge\<close> rejects an amount that is not positive). A credit
  of minus 2000 to the account with balance 1000 succeeds and leaves the balance at minus
  1000.
\<close>

theorem Increase_negative_amount:
  "accounts_ok db0
   \<and> fst (Increase db0 7 (- 2000)) = None
   \<and> GetBalance (snd (Increase db0 7 (- 2000))) 7 = Inr (- 1000)
   \<and> \<not> accounts_ok (snd (Increase db0 7 (- 2000)))"
  by (simp add: accounts_ok_def account_ok_def Increase_def GetBalance_def GetByUserID_def
      update_where_def rows_affected_def db0_def acct7_def Let_def)

lemma update_where_append:
  "update_where P f (xs @ ys) = update_where P f xs @ update_where P f ys"
  by (simp add: update_where_def)

lemma update_where_fresh: "\<forall>r \<in> set rows. \<not> P r \<Longrightarrow> update_where P f rows = rows"
  by (simp add: update_where_none rows_affected_0_iff)

lemma update_where_single: "update_where P f [x] = [if P x then f x else x]"
  by (simp add: update_where_def)

section \<open>What each store operation changes\<close>

lemma OrderCreate_None:
  assumes "OrderCreate now tx order = (None, tx1)"
  shows "orders tx1 = orders tx @ [order\<lparr>CreatedAt := now, UpdatedAt := now\<rparr>]"
    and "accounts tx1 = accounts tx" and "ledger tx1 = ledger tx" and "outbox tx1 = outbox tx"
    and "\<forall>r \<in> set (orders tx). OrderNo r \<noteq> OrderNo order \<and> RequestID r \<noteq> RequestID order"
  using assms by (auto simp: OrderCreate_def split: if_splits)

lemma UpdateStatus_None:
  assumes "UpdateStatus now tx no f t = (None, tx1)"
  shows "orders tx1 = update_where (\<lambda>r. OrderNo r = no \<and> Status r = f)
              (\<lambda>r. if t = OrderStatusPaid
                    then r\<lparr>Status := t, PaidAt := Some now, UpdatedAt := now\<rparr>
                    else r\<lparr>Status := t, UpdatedAt := now\<rparr>) (orders tx)"
    and "accounts tx1 = accounts tx" and "ledger tx1 = ledger tx" and "outbox tx1 = outbox tx"
  using assms by (auto simp: UpdateStatus_def Let_def split: if_splits)

lemma Deduct_None:
  assumes "Deduct rdb tx u amt v = (None, tx1)"
  shows "accounts tx1 = update_where (\<lambda>a. AccUserID a = u \<and> amt \<le> Balance a \<and> Version a = v)
       (\<lambda>a. a\<lparr>Balance := Balance a - amt, Version := Version a + 1\<rparr>) (accounts tx)"
    and "orders tx1 = orders tx" and "ledger tx1 = ledger tx" and "outbox tx1 = outbox tx"
    and "\<exists>a \<in> set (accounts tx). AccUserID a = u \<and> amt \<le> Balance a \<and> Version a = v"
  using assms
  by (auto simp: Deduct_def Let_def rows_affected_0_iff split: if_splits sum.splits)

lemma Increase_None:
  assumes "Increase tx u amt = (None, tx1)"
  shows "accounts tx1 = update_where (\<lambda>a. AccUserID a = u)
       (\<lambda>a. a\<lparr>Balance := Balance a + amt, Version := Version a + 1\<rparr>) (accounts tx)"
    and "orders tx1 = orders tx" and "ledger tx1 = ledger tx" and "outbox tx1 = outbox tx"
  using assms by (auto simp: Increase_def Let_def split: if_splits)

lemma TransactionCreate_None:
  assumes "TransactionCreate tx row = (None, tx1)"
  shows "ledger tx1 = ledger tx @ [row]"
    and "accounts tx1 = accounts tx" and "orders tx1 = orders tx" and "outbox tx1 = outbox tx"
  using assms by (auto simp: TransactionCreate_def split: if_splits)

lemma OutboxCreate_None:
  assumes "OutboxCreate tx msg = (r, tx1)"
  shows "outbox tx1 = outbox tx @ [msg\<lparr>MsgID := next_id (outbox tx)\<rparr>]"
    and "accounts tx1 = accounts tx" and "orders tx1 = orders tx" and "ledger tx1 = ledger tx"
  using assms by (auto simp: OutboxCreate_def)

section \<open>A successful payment\<close>

lemma PayTx_InrE:
  assumes "PayTx cfg e rdb req account order tx = Inr tx'"
  obtains tx1 tx2 tx3 tx4 tx5 where
    "OrderCreate (Now e) tx order = (None, tx1)"
    "UpdateStatus (Now e) tx1 (OrderNo order) OrderStatusCreated OrderStatusPaying = (None, tx2)"
    "Deduct rdb tx2 (ReqUserID req) (ReqAmount req) (Version account) = (None, tx3)"
    "TransactionCreate tx3
       \<lparr>TransactionNo = GenTransactionNo e, TxUserID = ReqUserID req, TxOrderNo = OrderNo order,
        TxAmount = - ReqAmount req, TxType = TransactionTypePay,
        BalanceBefore = Balance account, BalanceAfter = Balance account - ReqAmount req,
        Remark = ''pay-'' @ ReqProductType req @ ''-'' @ ReqProductID req\<rparr> = (None, tx4)"
    "UpdateStatus (Now e) tx4 (OrderNo order) OrderStatusPaying OrderStatusPaid = (None, tx5)"
    "OutboxCreate tx5
       \<lparr>MsgID = 0, MessageKey = OrderNo order, Topic = PayResultTopic cfg,
        Payload = JsonPayload e, MsgStatus = OutboxStatusPending, RetryCount = 0\<rparr> = (None, tx')"
  using assms
  by (auto simp: PayTx_def Let_def split: prod.splits option.splits)

lemma GetByRequestID_None:
  "GetByRequestID d rid = None \<longleftrightarrow> (\<forall>r \<in> set (orders d). RequestID r \<noteq> rid)"
  by (auto simp: GetByRequestID_def find_None_iff)

lemma GetOrCreate_Inr:
  assumes "GetOrCreate d u = (Inr account, d1)"
  shows "GetByUserID d1 u = Inr account"
    and "d1 = snd (GetOrCreate d u)"
    and "orders d1 = orders d" and "ledger d1 = ledger d" and "outbox d1 = outbox d"
  using assms
  by (auto simp: GetOrCreate_def Let_def split: sum.splits if_splits)

lemma Pay_success:
  assumes "Pay cfg e d req = (Inr resp, d')" and "RespMessage resp = MsgPaySuccess"
  obtains account where
    "GetByRequestID d (ReqRequestID req) = None"
    "GetByUserID (snd (GetOrCreate d (ReqUserID req))) (ReqUserID req) = Inr account"
    "ReqAmount req \<le> Balance account"
    "resp = \<lparr>RespOrderNo = GenOrderNo e, RespStatus = OrderStatusPaid,
             RespAmount = ReqAmount req, RespMessage = MsgPaySuccess\<rparr>"
    "orders d' = orders d @ [paid_order cfg e req]"
    "ledger d' = ledger d @ [pay_ledger_row e req account]"
    "outbox d' = outbox d @ [pay_outbox_row cfg e (next_id (outbox d))]"
    "accounts d' = update_where
        (\<lambda>a. AccUserID a = ReqUserID req \<and> ReqAmount req \<le> Balance a \<and> Version a = Version account)
        (\<lambda>a. a\<lparr>Balance := Balance a - ReqAmount req, Version := Version a + 1\<rparr>)
        (accounts (snd (GetOrCreate d (ReqUserID req))))"
    "\<forall>r \<in> set (orders d). OrderNo r \<noteq> GenOrderNo e"
proof -
  let ?order = "\<lparr>OrderNo = GenOrderNo e, RequestID = ReqRequestID req,
                   UserID = ReqUserID req, Amount = ReqAmount req,
                   ProductType = ReqProductType req, ProductID = ReqProductID req,
                   Status = OrderStatusCreated,
                   ExpiredAt = Now e + minutes (OrderTimeoutMinutes cfg),
                   PaidAt = None, CreatedAt = 0, UpdatedAt = 0\<rparr>"
  from assms have none: "GetByRequestID d (ReqRequestID req) = None"
    by (auto simp: Pay_def existing_response_def split: option.splits)
  from assms none obtain account d1 where
    goc: "GetOrCreate d (ReqUserID req) = (Inr account, d1)"
    and bal: "ReqAmount req \<le> Balance account"
    and tx: "PayTx cfg e d1 req account ?order d1 = Inr d'"
    and resp: "resp = \<lparr>RespOrderNo = GenOrderNo e, RespStatus = OrderStatusPaid,
             RespAmount = ReqAmount req, RespMessage = MsgPaySuccess\<rparr>"
    by (auto simp: Pay_def Let_def Transaction_def
        split: option.splits prod.splits sum.splits if_splits)
  note g = GetOrCreate_Inr [OF goc]
  from tx obtain tx1 tx2 tx3 tx4 tx5 where
    s1: "OrderCreate (Now e) d1 ?order = (None, tx1)" and
    s2: "UpdateStatus (Now e) tx1 (OrderNo ?order) OrderStatusCreated OrderStatusPaying = (None, tx2)" and
    s3: "Deduct d1 tx2 (ReqUserID req) (ReqAmount req) (Version account) = (None, tx3)" and
    s4: "TransactionCreate tx3
       \<lparr>TransactionNo = GenTransactionNo e, TxUserID = ReqUserID req, TxOrderNo = OrderNo ?order,
        TxAmount = - ReqAmount req, TxType = TransactionTypePay,
        BalanceBefore = Balance account, BalanceAfter = Balance account - ReqAmount req,
        Remark = ''pay-'' @ ReqProductType req @ ''-'' @ ReqProductID req\<rparr> = (None, tx4)" and
    s5: "UpdateStatus (Now e) tx4 (OrderNo ?order) OrderStatusPaying OrderStatusPaid = (None, tx5)" and
    s6: "OutboxCreate tx5
       \<lparr>MsgID = 0, MessageKey = OrderNo ?order, Topic = PayResultTopic cfg,
        Payload = JsonPayload e, MsgStatus = OutboxStatusPending, RetryCount = 0\<rparr> = (None, d')"
    by (rule PayTx_InrE)
  note f1 = OrderCreate_None [OF s1] and f2 = UpdateStatus_None [OF s2]
    and f3 = Deduct_None [OF s3] and f4 = TransactionCreate_None [OF s4]
    and f5 = UpdateStatus_None [OF s5] and f6 = OutboxCreate_None [OF s6]
  from f1(5) g(3) have fresh: "\<forall>r \<in> set (orders d). OrderNo r \<noteq> GenOrderNo e"
    by simp
  then have fr: "\<forall>r \<in> set (orders d). \<not> (OrderNo r = GenOrderNo e \<and> Status r = s)" for s
    by simp
  have o2: "orders tx2 = orders d @ [?order\<lparr>Status := OrderStatusPaying, CreatedAt := Now e, UpdatedAt := Now e\<rparr>]"
    using fr [of OrderStatusCreated]
    by (simp add: f2(1) f1(1) g(3) update_where_append update_where_fresh update_where_single
        OrderStatus_defs)
  have o5: "orders d' = orders d @ [paid_order cfg e req]"
    using fr [of OrderStatusPaying]
    by (simp add: f6(3) f5(1) f4(3) f3(2) o2 update_where_append update_where_fresh
        update_where_single paid_order_def OrderStatus_defs)
  have l: "ledger d' = ledger d @ [pay_ledger_row e req account]"
    by (simp add: f6(4) f5(3) f4(1) f3(3) f2(3) f1(3) g(4) pay_ledger_row_def)
  have ob: "outbox d' = outbox d @ [pay_outbox_row cfg e (next_id (outbox d))]"
    by (simp add: f6(1) f5(4) f4(4) f3(4) f2(4) f1(4) g(5) pay_outbox_row_def)
  have ac: "accounts d' = update_where
        (\<lambda>a. AccUserID a = ReqUserID req \<and> ReqAmount req \<le> Balance a \<and> Version a = Version account)
        (\<lambda>a. a\<lparr>Balance := Balance a - ReqAmount req, Version := Version a + 1\<rparr>)
        (accounts (snd (GetOrCreate d (ReqUserID req))))"
    by (simp add: f6(2) f5(2) f4(2) f3(1) f2(2) f1(2) g(2) [symmetric])
  from g(1) g(2) have acc: "GetByUserID (snd (GetOrCreate d (ReqUserID req))) (ReqUserID req) = Inr account"
    by simp
  from that [OF none acc bal resp o5 l ob ac fresh] show ?thesis .
qed

section \<open>A successful refund\<close>

lemma RefundTx_InrE:
  assumes "RefundTx cfg e rdb req order tx = Inr tx'"
  obtains account tx1 tx2 tx3 tx4 where
    "UpdateStatus (Now e) tx (RfOrderNo req) OrderStatusPaid OrderStatusRefunding = (None, tx1)"
    "GetByUserID rdb (UserID order) = Inr account"
    "Increase tx1 (UserID order) (Amount order) = (None, tx2)"
    "TransactionCreate tx2 (refund_ledger_row e req order account) = (None, tx3)"
    "UpdateStatus (Now e) tx3 (RfOrderNo req) OrderStatusRefunding OrderStatusRefunded = (None, tx4)"
    "OutboxCreate tx4
       \<lparr>MsgID = 0, MessageKey = GenRefundNo e, Topic = PayResultTopic cfg,
        Payload = JsonPayload e, MsgStatus = OutboxStatusPending, RetryCount = 0\<rparr> = (None, tx')"
  using assms
  by (auto simp: RefundTx_def refund_ledger_row_def Let_def
      split: prod.splits option.splits sum.splits)

lemma Refund_success:
  assumes "Refund cfg e d req = (Inr resp, d')" and "RfRespMessage resp = MsgRefundSuccess"
  obtains order account where
    "GetByOrderNo d (RfOrderNo req) = Inr order"
    "Status order = OrderStatusPaid"
    "GetByUserID d (UserID order) = Inr account"
    "accounts d' = update_where (\<lambda>a. AccUserID a = UserID order)
       (\<lambda>a. a\<lparr>Balance := Balance a + Amount order, Version := Version a + 1\<rparr>) (accounts d)"
    "ledger d' = ledger d @ [refund_ledger_row e req order account]"
    "resp = \<lparr>RfRespRefundNo = GenRefundNo e, RfRespOrderNo = RfOrderNo req,
             RfRespAmount = Amount order, RfRespStatus = OrderStatusRefunded,
             RfRespMessage = MsgRefundSuccess\<rparr>"
proof -
  from assms have locked: "Refund_locked cfg e d req = (Inr resp, d')"
    by (auto simp: Refund_def refunded_response_def split: sum.splits if_splits option.splits)
  then obtain order where
    ord: "GetByOrderNo d (RfOrderNo req) = Inr order" and st: "Status order = OrderStatusPaid"
    and tx: "RefundTx cfg e d req order d = Inr d'"
    and resp: "resp = \<lparr>RfRespRefundNo = GenRefundNo e, RfRespOrderNo = RfOrderNo req,
             RfRespAmount = Amount order, RfRespStatus = OrderStatusRefunded,
             RfRespMessage = MsgRefundSuccess\<rparr>"
    using assms(2)
    by (auto simp: Refund_locked_def refunded_response_def Transaction_def Let_def
        split: sum.splits if_splits option.splits prod.splits)
  from tx obtain account tx1 tx2 tx3 tx4 where
    s1: "UpdateStatus (Now e) d (RfOrderNo req) OrderStatusPaid OrderStatusRefunding = (None, tx1)" and
    acc: "GetByUserID d (UserID order) = Inr account" and
    s2: "Increase tx1 (UserID order) (Amount order) = (None, tx2)" and
    s3: "TransactionCreate tx2 (refund_ledger_row e req order account) = (None, tx3)" and
    s4: "UpdateStatus (Now e) tx3 (RfOrderNo req) OrderStatusRefunding OrderStatusRefunded = (None, tx4)" and
    s5: "OutboxCreate tx4
       \<lparr>MsgID = 0, MessageKey = GenRefundNo e, Topic = PayResultTopic cfg,
        Payload = JsonPayload e, MsgStatus = OutboxStatusPending, RetryCount = 0\<rparr> = (None, d')"
    by (rule RefundTx_InrE)
  note f1 = UpdateStatus_None [OF s1] and f2 = Increase_None [OF s2]
    and f3 = TransactionCreate_None [OF s3] and f4 = UpdateStatus_None [OF s4]
    and f5 = OutboxCreate_None [OF s5]
  have ac: "accounts d' = update_where (\<lambda>a. AccUserID a = UserID order)
       (\<lambda>a. a\<lparr>Balance := Balance a + Amount order, Version := Version a + 1\<rparr>) (accounts d)"
    by (simp add: f5(2) f4(2) f3(2) f2(1) f1(2))
  have l: "ledger d' = ledger d @ [refund_ledger_row e req order account]"
    by (simp add: f5(4) f4(3) f3(1) f2(3) f1(3))
  from that [OF ord st acc ac l resp] show ?thesis .
qed

section \<open>Balances across a payment and its refund\<close>

lemma find_append_fresh:
  "\<forall>r \<in> set xs. \<not> P r \<Longrightarrow> find P (xs @ [x]) = (if P x then Some x else None)"
  by (induction xs) auto

lemma GetByUserID_update_where:
  assumes "GetByUserID d u = Inr account" and "\<And>a. AccUserID (f a) = AccUserID a"
    and "accounts d' = update_where P f (accounts d)"
  shows "GetByUserID d' u = Inr (if P account then f account else account)"
  using assms
  by (auto simp: GetByUserID_def find_update_where split: option.splits)

lemma GetBalance_GetOrCreate: "GetBalance (snd (GetOrCreate d u)) u = GetBalance d u"
proof (cases "find (\<lambda>a. AccUserID a = u) (accounts d)")
  case None
  then have "\<forall>r \<in> set (accounts d). \<not> AccUserID r = u"
    by (simp add: find_None_iff)
  with None show ?thesis
    by (simp add: GetBalance_def GetOrCreate_def GetByUserID_def Let_def find_append_fresh)
next
  case (Some a)
  then show ?thesis
    by (simp add: GetBalance_def GetOrCreate_def GetByUserID_def)
qed

lemma GetBalance_Inr: "GetByUserID d u = Inr account \<Longrightarrow> GetBalance d u = Inr (Balance account)"
  by (simp add: GetBalance_def)

lemma Pay_success_balance:
  assumes "Pay cfg e d req = (Inr resp, d')" and "RespMessage resp = MsgPaySuccess"
  obtains b where "GetBalance d (ReqUserID req) = Inr b"
    and "GetBalance d' (ReqUserID req) = Inr (b - ReqAmount req)"
    and "ReqAmount req \<le> b"
proof -
  from assms obtain account where
    acc: "GetByUserID (snd (GetOrCreate d (ReqUserID req))) (ReqUserID req) = Inr account"
    and bal: "ReqAmount req \<le> Balance account"
    and ac: "accounts d' = update_where
        (\<lambda>a. AccUserID a = ReqUserID req \<and> ReqAmount req \<le> Balance a \<and> Version a = Version account)
        (\<lambda>a. a\<lparr>Balance := Balance a - ReqAmount req, Version := Version a + 1\<rparr>)
        (accounts (snd (GetOrCreate d (ReqUserID req))))"
    by (rule Pay_success)
  from GetBalance_Inr [OF acc] have b0: "GetBalance d (ReqUserID req) = Inr (Balance account)"
    by (simp add: GetBalance_GetOrCreate)
  from GetByUserID_Inr [OF acc] have u: "AccUserID account = ReqUserID req" by simp
  have "GetByUserID d' (ReqUserID req) =
      Inr (account\<lparr>Balance := Balance account - ReqAmount req, Version := Version account + 1\<rparr>)"
    using GetByUserID_update_where [OF acc _ ac] u bal by simp
  from GetBalance_Inr [OF this] have b1: "GetBalance d' (ReqUserID req) = Inr (Balance account - ReqAmount req)"
    by simp
  from that [OF b0 b1 bal] show ?thesis .
qed

text \<open>
  Claim C7. After a successful payment (a new order, not the replay of an existing one)
  and a successful refund of that order, the user's balance is what it was before the
  payment, and the refunded amount is the amount paid.
\<close>

theorem refund_round_trip:
  "Pay cfg e1 d req = (Inr presp, d1) \<Longrightarrow> RespMessage presp = MsgPaySuccess \<Longrightarrow>
   RfOrderNo rreq = RespOrderNo presp \<Longrightarrow>
   Refund cfg' e2 d1 rreq = (Inr rresp, d2) \<Longrightarrow> RfRespMessage rresp = MsgRefundSuccess \<Longrightarrow>
   GetBalance d2 (ReqUserID req) = GetBalance d (ReqUserID req)
   \<and> RfRespAmount rresp = ReqAmount req"
proof -
  assume pay: "Pay cfg e1 d req = (Inr presp, d1)" and pmsg: "RespMessage presp = MsgPaySuccess"
    and no: "RfOrderNo rreq = RespOrderNo presp"
    and refund: "Refund cfg' e2 d1 rreq = (Inr rresp, d2)"
    and rmsg: "RfRespMessage rresp = MsgRefundSuccess"
  from pay pmsg obtain account where
    presp: "presp = \<lparr>RespOrderNo = GenOrderNo e1, RespStatus = OrderStatusPaid,
             RespAmount = ReqAmount req, RespMessage = MsgPaySuccess\<rparr>"
    and ords: "orders d1 = orders d @ [paid_order cfg e1 req]"
    and fresh: "\<forall>r \<in> set (orders d). OrderNo r \<noteq> GenOrderNo e1"
    by (rule Pay_success)
  from pay pmsg obtain b where
    b0: "GetBalance d (ReqUserID req) = Inr b"
    and b1: "GetBalance d1 (ReqUserID req) = Inr (b - ReqAmount req)"
    by (rule Pay_success_balance)
  from refund rmsg obtain order account1 where
    ord: "GetByOrderNo d1 (RfOrderNo rreq) = Inr order"
    and acc1: "GetByUserID d1 (UserID order) = Inr account1"
    and ac2: "accounts d2 = update_where (\<lambda>a. AccUserID a = UserID order)
       (\<lambda>a. a\<lparr>Balance := Balance a + Amount order, Version := Version a + 1\<rparr>) (accounts d1)"
    and rresp: "rresp = \<lparr>RfRespRefundNo = GenRefundNo e2, RfRespOrderNo = RfOrderNo rreq,
             RfRespAmount = Amount order, RfRespStatus = OrderStatusRefunded,
             RfRespMessage = MsgRefundSuccess\<rparr>"
    by (rule Refund_success)
  from no presp have no': "RfOrderNo rreq = GenOrderNo e1" by simp
  have "find (\<lambda>r. OrderNo r = GenOrderNo e1) (orders d1) = Some (paid_order cfg e1 req)"
    using fresh by (simp add: ords find_append_fresh paid_order_def)
  with ord no' have order: "order = paid_order cfg e1 req"
    by (simp add: GetByOrderNo_def)
  then have ou: "UserID order = ReqUserID req" and oa: "Amount order = ReqAmount req"
    by (simp_all add: paid_order_def)
  from GetBalance_Inr [OF acc1] b1 ou have bal1: "Balance account1 = b - ReqAmount req"
    by simp
  from GetByUserID_Inr [OF acc1] have u1: "AccUserID account1 = UserID order" by simp
  have "GetByUserID d2 (UserID order) =
      Inr (account1\<lparr>Balance := Balance account1 + Amount order, Version := Version account1 + 1\<rparr>)"
    using GetByUserID_update_where [OF acc1 _ ac2] u1 by simp
  from GetBalance_Inr [OF this] have "GetBalance d2 (ReqUserID req) = Inr b"
    by (simp add: ou oa bal1)
  with b0 rresp oa show ?thesis by simp
qed

theorem refund_round_trip_witness:
  "Pay cfg0 env1 db0 req1 =
     (Inr \<lparr>RespOrderNo = ''PAY1'', RespStatus = ''PAID'', RespAmount = 300,
           RespMessage = MsgPaySuccess\<rparr>, db_paid)
   \<and> Refund cfg0 env2 db_paid rf1 =
     (Inr \<lparr>RfRespRefundNo = ''REF1'', RfRespOrderNo = ''PAY1'', RfRespAmount = 300,
           RfRespStatus = ''REFUNDED'', RfRespMessage = MsgRefundSuccess\<rparr>, db_refunded)
   \<and> GetBalance db_refunded 7 = GetBalance db0 7
   \<and> GetBalance db_paid 7 = Inr 700"
proof -
  have "GetBalance db_refunded (ReqUserID req1) = GetBalance db0 (ReqUserID req1)"
    using refund_round_trip [OF Pay_example _ _ Refund_example] by (simp add: rf1_def)
  then have "GetBalance db_refunded 7 = GetBalance db0 7"
    by (simp add: req1_def)
  moreover have "GetBalance db_paid 7 = Inr 700"
    by (simp add: GetBalance_def GetByUserID_def db_paid_def acct7_def)
  ultimately show ?thesis
    using Pay_example Refund_example by simp
qed

section \<open>Replaying a payment request\<close>

lemma Pay_existing:
  "GetByRequestID d (ReqRequestID req) = Some existingOrder \<Longrightarrow>
   Pay cfg e d req = (Inr (existing_response existingOrder), d)"
  by (simp add: Pay_def)

text \<open>
  Claim C5, as the code has it. When \<open>Pay\<close> has created an order for a request, any later
  request with the same \<open>request_id\<close> (whatever its other fields, the clock, the generated
  identifiers and the outcome of the lock) returns the same order number, status and amount
  with the message of an existing order, and leaves the store unchanged. The first call
  added exactly one order row, the only one with that \<open>request_id\<close>, and exactly one ledger
  row, of type PAY, for that order and minus the amount, and debited the balance once.
\<close>

theorem Pay_replay:
  "Pay cfg e d req = (Inr resp, d') \<Longrightarrow> RespMessage resp = MsgPaySuccess \<Longrightarrow>
   ReqRequestID req' = ReqRequestID req \<Longrightarrow>
   Pay cfg' e' d' req' = (Inr (resp\<lparr>RespMessage := MsgOrderExists\<rparr>), d')
   \<and> filter (\<lambda>r. RequestID r = ReqRequestID req) (orders d') = [paid_order cfg e req]
   \<and> length (orders d') = length (orders d) + 1
   \<and> (\<exists>row. ledger d' = ledger d @ [row] \<and> TxType row = TransactionTypePay \<and>
         TxOrderNo row = RespOrderNo resp \<and> TxUserID row = ReqUserID req \<and>
         TxAmount row = - ReqAmount req)
   \<and> (\<exists>b. GetBalance d (ReqUserID req) = Inr b \<and>
         GetBalance d' (ReqUserID req) = Inr (b - ReqAmount req))"
proof -
  assume pay: "Pay cfg e d req = (Inr resp, d')" and msg: "RespMessage resp = MsgPaySuccess"
    and rid: "ReqRequestID req' = ReqRequestID req"
  from pay msg obtain account where
    none: "GetByRequestID d (ReqRequestID req) = None"
    and resp: "resp = \<lparr>RespOrderNo = GenOrderNo e, RespStatus = OrderStatusPaid,
             RespAmount = ReqAmount req, RespMessage = MsgPaySuccess\<rparr>"
    and ords: "orders d' = orders d @ [paid_order cfg e req]"
    and led: "ledger d' = ledger d @ [pay_ledger_row e req account]"
    by (rule Pay_success)
  from none have fresh: "\<forall>r \<in> set (orders d). \<not> RequestID r = ReqRequestID req"
    by (simp add: GetByRequestID_None)
  then have "GetByRequestID d' (ReqRequestID req') = Some (paid_order cfg e req)"
    by (simp add: GetByRequestID_def ords rid find_append_fresh paid_order_def)
  from Pay_existing [OF this]
  have replay: "Pay cfg' e' d' req' = (Inr (resp\<lparr>RespMessage := MsgOrderExists\<rparr>), d')"
    by (simp add: existing_response_def resp paid_order_def)
  from fresh have one: "filter (\<lambda>r. RequestID r = ReqRequestID req) (orders d') = [paid_order cfg e req]"
    by (simp add: ords filter_empty_conv paid_order_def)
  from pay msg obtain b where "GetBalance d (ReqUserID req) = Inr b"
    "GetBalance d' (ReqUserID req) = Inr (b - ReqAmount req)"
    by (rule Pay_success_balance)
  then have bal: "\<exists>b. GetBalance d (ReqUserID req) = Inr b \<and>
         GetBalance d' (ReqUserID req) = Inr (b - ReqAmount req)"
    by blast
  have row: "\<exists>row. ledger d' = ledger d @ [row] \<and> TxType row = TransactionTypePay \<and>
         TxOrderNo row = RespOrderNo resp \<and> TxUserID row = ReqUserID req \<and>
         TxAmount row = - ReqAmount req"
    by (rule exI [of _ "pay_ledger_row e req account"]) (simp add: led resp pay_ledger_row_def)
  from replay one row bal show ?thesis
    by (simp add: ords)
qed

theorem Pay_replay_witness:
  "Pay cfg0 env2 db_paid req1 =
     (Inr \<lparr>RespOrderNo = ''PAY1'', RespStatus = ''PAID'', RespAmount = 300,
           RespMessage = MsgOrderExists\<rparr>, db_paid)
   \<and> filter (\<lambda>r. RequestID r = ''R1'') (orders db_paid) = [paid_order cfg0 env1 req1]
   \<and> length (orders db_paid) = 1"
proof -
  have "RespMessage \<lparr>RespOrderNo = ''PAY1'', RespStatus = ''PAID'', RespAmount = 300,
           RespMessage = MsgPaySuccess\<rparr> = MsgPaySuccess"
    by simp
  from Pay_replay [OF Pay_example this, of req1 cfg0 env2] show ?thesis
    by (simp add: req1_def db0_def)
qed

text \<open>
  Claim C5 as stated fails in one point: the two responses are not identical. The first
  carries the message of a successful payment, the replay the message of an existing order.
\<close>

theorem Pay_replay_response_differs:
  "fst (Pay cfg0 env1 db0 req1) \<noteq> fst (Pay cfg0 env2 (snd (Pay cfg0 env1 db0 req1)) req1)"
  by (simp add: Pay_example Pay_replay_example)

section \<open>The compensation job\<close>

lemma wrap64_id: "- (2 ^ 63) \<le> x \<Longrightarrow> x < 2 ^ 63 \<Longrightarrow> wrap64 x = x"
  by (simp add: wrap64_def)

lemma minutes_fits: "duration_fits n \<Longrightarrow> minutes n = n * Minute"
  by (simp add: minutes_def duration_fits_def wrap64_id)

lemma clamp_gt_iff:
  fixes x :: int
  assumes "lo \<le> T" and "T < hi"
  shows "max lo (min hi x) > T \<longleftrightarrow> x > T"
  using assms by auto

lemma Since_gt_iff:
  assumes "duration_fits n"
  shows "Since now t > minutes n \<longleftrightarrow> now - t > n * Minute"
proof -
  have "even (n * Minute)" by (simp add: Minute_def)
  moreover have "odd ((2::int) ^ 63 - 1)" by simp
  ultimately have "n * Minute \<noteq> 2 ^ 63 - 1" by metis
  with assms have "- (2 ^ 63) \<le> n * Minute" and "n * Minute < 2 ^ 63 - 1"
    by (simp_all add: duration_fits_def)
  then show ?thesis
    unfolding minutes_fits [OF assms] Since_def by (rule clamp_gt_iff)
qed

lemma pay_row_exists_iff:
  "ledger_starts_with_pay d no \<Longrightarrow> pay_row_exists d no \<longleftrightarrow> first_ledger_row_is_pay d no"
  by (auto simp: ledger_starts_with_pay_def pay_row_exists_def first_ledger_row_is_pay_def
      TransactionGetByOrderNo_def find_None_iff list_ex_iff split: option.splits
      dest: find_Some_set)

lemma GetPayingOrders_subset:
  "r \<in> set (GetPayingOrders d beforeTime limit) \<Longrightarrow>
   r \<in> set (orders d) \<and> Status r = OrderStatusPaying \<and> UpdatedAt r < beforeTime"
  by (auto simp: GetPayingOrders_def dest: in_set_takeD)

lemma compensateOrder_unfold:
  "compensateOrder cfg now d order =
      (if first_ledger_row_is_pay d (OrderNo order)
       then snd (UpdateStatus now d (OrderNo order) OrderStatusPaying OrderStatusPaid)
       else if Since now (CreatedAt order) > minutes (OrderTimeoutMinutes cfg)
       then snd (UpdateStatus now d (OrderNo order) OrderStatusPaying OrderStatusFailed)
       else d)"
  by (cases "TransactionGetByOrderNo d (OrderNo order)")
    (simp_all add: compensateOrder_def Let_def first_ledger_row_is_pay_def)

lemma compensateOrder_stored:
  assumes "GetByOrderNo d (OrderNo order) = Inr order" and "Status order = OrderStatusPaying"
  shows "GetByOrderNo (compensateOrder cfg now d order) (OrderNo order) =
      Inr (if first_ledger_row_is_pay d (OrderNo order)
           then order\<lparr>Status := OrderStatusPaid, PaidAt := Some now, UpdatedAt := now\<rparr>
           else if Since now (CreatedAt order) > minutes (OrderTimeoutMinutes cfg)
           then order\<lparr>Status := OrderStatusFailed, UpdatedAt := now\<rparr>
           else order)"
proof -
  have paid: "CanTransitionTo OrderStatusPaying OrderStatusPaid"
    and failed: "CanTransitionTo OrderStatusPaying OrderStatusFailed"
    by (simp_all add: CanTransitionTo_edges OrderStatus_defs)
  show ?thesis
    using GetByOrderNo_UpdateStatus(2) [OF assms paid, of now]
      GetByOrderNo_UpdateStatus(2) [OF assms failed, of now] assms(1)
    by (simp add: compensateOrder_unfold OrderStatus_defs)
qed

text \<open>
  Claim C8, for a timeout in the range of a duration. Take a stored order in status PAYING
  whose ledger rows, if it has any, start with a PAY row, and a configured timeout whose
  nanoseconds fit 64 bits. When a PAY ledger row exists for the order number,
  \<open>compensateOrder\<close> makes the stored order PAID (with \<open>paid_at\<close> set); otherwise, when
  the order was created more than the configured timeout ago, it makes it FAILED; otherwise
  it leaves the store unchanged.
\<close>

theorem compensateOrder_per_order:
  "GetByOrderNo d (OrderNo order) = Inr order \<Longrightarrow> Status order = OrderStatusPaying \<Longrightarrow>
   ledger_starts_with_pay d (OrderNo order) \<Longrightarrow>
   duration_fits (OrderTimeoutMinutes cfg) \<Longrightarrow>
   (pay_row_exists d (OrderNo order) \<longrightarrow>
      GetByOrderNo (compensateOrder cfg now d order) (OrderNo order) =
        Inr (order\<lparr>Status := OrderStatusPaid, PaidAt := Some now, UpdatedAt := now\<rparr>))
   \<and> (\<not> pay_row_exists d (OrderNo order) \<and>
        now - CreatedAt order > OrderTimeoutMinutes cfg * Minute \<longrightarrow>
      GetByOrderNo (compensateOrder cfg now d order) (OrderNo order) =
        Inr (order\<lparr>Status := OrderStatusFailed, UpdatedAt := now\<rparr>))
   \<and> (\<not> pay_row_exists d (OrderNo order) \<and>
        \<not> now - CreatedAt order > OrderTimeoutMinutes cfg * Minute \<longrightarrow>
      compensateOrder cfg now d order = d)"
proof -
  assume ord: "GetByOrderNo d (OrderNo order) = Inr order"
    and st: "Status order = OrderStatusPaying"
    and led: "ledger_starts_with_pay d (OrderNo order)"
    and fits: "duration_fits (OrderTimeoutMinutes cfg)"
  note since = Since_gt_iff [OF fits, of now "CreatedAt order"]
  note ex = pay_row_exists_iff [OF led]
  have "compensateOrder cfg now d order = d"
    if "\<not> pay_row_exists d (OrderNo order)"
      "\<not> now - CreatedAt order > OrderTimeoutMinutes cfg * Minute"
    using that since by (simp add: compensateOrder_unfold ex)
  then show ?thesis
    using compensateOrder_stored [OF ord st, of cfg now] since
    by (simp add: ex)
qed

theorem compensateOrder_per_order_witness:
  "pay_row_exists db_paying_paid ''PAY1''
   \<and> GetByOrderNo (compensateOrder cfg0 (1000 + 6 * Minute) db_paying_paid (order1 ''PAYING'' 1000))
        ''PAY1'' = Inr (order1 ''PAID'' (1000 + 6 * Minute)\<lparr>PaidAt := Some (1000 + 6 * Minute)\<rparr>)
   \<and> \<not> pay_row_exists db_paying_unpaid ''PAY1''
   \<and> GetByOrderNo (compensateOrder cfg0 (1000 + 31 * Minute) db_paying_unpaid (order1 ''PAYING'' 1000))
        ''PAY1'' = Inr (order1 ''FAILED'' (1000 + 31 * Minute))
   \<and> compensateOrder cfg0 (1000 + 6 * Minute) db_paying_unpaid (order1 ''PAYING'' 1000)
        = db_paying_unpaid"
proof -
  have o1: "GetByOrderNo db_paying_paid (OrderNo (order1 ''PAYING'' 1000)) = Inr (order1 ''PAYING'' 1000)"
    and o2: "GetByOrderNo db_paying_unpaid (OrderNo (order1 ''PAYING'' 1000)) = Inr (order1 ''PAYING'' 1000)"
    by (simp_all add: GetByOrderNo_def db_paying_paid_def db_paying_unpaid_def order1_def)
  have st: "Status (order1 ''PAYING'' 1000) = OrderStatusPaying"
    by (simp add: order1_def OrderStatus_defs)
  have l1: "ledger_starts_with_pay db_paying_paid (OrderNo (order1 ''PAYING'' 1000))"
    and l2: "ledger_starts_with_pay db_paying_unpaid (OrderNo (order1 ''PAYING'' 1000))"
    by (simp_all add: ledger_starts_with_pay_def TransactionGetByOrderNo_def db_paying_paid_def
        db_paying_unpaid_def pay_row1_def order1_def TransactionType_defs)
  have fits: "duration_fits (OrderTimeoutMinutes cfg0)"
    by (simp add: duration_fits_def cfg0_def Minute_def)
  have p1: "pay_row_exists db_paying_paid ''PAY1''"
    and p2: "\<not> pay_row_exists db_paying_unpaid ''PAY1''"
    by (simp_all add: pay_row_exists_def db_paying_paid_def db_paying_unpaid_def pay_row1_def
        TransactionType_defs)
  show ?thesis
    using compensateOrder_per_order [OF o1 st l1 fits, where now = "1000 + 6 * Minute"]
      compensateOrder_per_order [OF o2 st l2 fits, where now = "1000 + 31 * Minute"]
      compensateOrder_per_order [OF o2 st l2 fits, where now = "1000 + 6 * Minute"] p1 p2
    by (simp add: order1_def cfg0_def Minute_def OrderStatus_defs)
qed

text \<open>
  Claim C8 as stated fails for a configured timeout beyond the range of a duration. With
  153722868 minutes the product with \<open>time.Minute\<close> wraps around to a negative
  duration: an order six minutes old, selected by the job and with no ledger row, is not
  older than the configured timeout, and the job makes it FAILED.
\<close>

theorem compensateOrder_timeout_wraps:
  "GetPayingOrders db_paying_unpaid (1000 + 6 * Minute - 5 * Minute) 50 = [order1 ''PAYING'' 1000]
   \<and> \<not> pay_row_exists db_paying_unpaid ''PAY1''
   \<and> \<not> (1000 + 6 * Minute) - CreatedAt (order1 ''PAYING'' 1000)
         > OrderTimeoutMinutes cfg_big * Minute
   \<and> minutes (OrderTimeoutMinutes cfg_big) < 0
   \<and> GetByOrderNo (compensateOrder cfg_big (1000 + 6 * Minute) db_paying_unpaid
          (order1 ''PAYING'' 1000)) ''PAY1'' = Inr (order1 ''FAILED'' (1000 + 6 * Minute))"
  by (simp add: compensateOrder_def GetPayingOrders_def TransactionGetByOrderNo_def
      pay_row_exists_def GetByOrderNo_def UpdateStatus_def CanTransitionTo_def
      ValidStatusTransitions_def update_where_def rows_affected_def
      db_paying_unpaid_def order1_def cfg_big_def minutes_def wrap64_def Since_def
      Minute_def TransactionType_defs OrderStatus_defs Let_def)

section \<open>Money conservation on each path\<close>

text \<open>
  A successful payment and a successful refund each move the balance by the amount of the
  one ledger row they append, and that row records the balance before and after. The
  recharge moves the balance and leaves the ledger as it was.
\<close>

lemma ledger_sum_append:
  "ledger d' = ledger d @ [row] \<Longrightarrow>
   ledger_sum d' u = ledger_sum d u + (if TxUserID row = u then TxAmount row else 0)"
  by (simp add: ledger_sum_def)

lemma Pay_conserves:
  assumes "Pay cfg e d req = (Inr resp, d')" and "RespMessage resp = MsgPaySuccess"
  shows "\<exists>b row. GetBalance d (ReqUserID req) = Inr b
           \<and> GetBalance d' (ReqUserID req) = Inr (b - ReqAmount req)
           \<and> ledger d' = ledger d @ [row]
           \<and> TxUserID row = ReqUserID req \<and> TxAmount row = - ReqAmount req
           \<and> TxType row = TransactionTypePay
           \<and> BalanceBefore row = b \<and> BalanceAfter row = b - ReqAmount req
           \<and> ledger_sum d' (ReqUserID req) = ledger_sum d (ReqUserID req) - ReqAmount req"
proof -
  from assms obtain account where
    acc: "GetByUserID (snd (GetOrCreate d (ReqUserID req))) (ReqUserID req) = Inr account"
    and bal: "ReqAmount req \<le> Balance account"
    and led: "ledger d' = ledger d @ [pay_ledger_row e req account]"
    and ac: "accounts d' = update_where
        (\<lambda>a. AccUserID a = ReqUserID req \<and> ReqAmount req \<le> Balance a \<and> Version a = Version account)
        (\<lambda>a. a\<lparr>Balance := Balance a - ReqAmount req, Version := Version a + 1\<rparr>)
        (accounts (snd (GetOrCreate d (ReqUserID req))))"
    by (rule Pay_success)
  from GetBalance_Inr [OF acc] have b0: "GetBalance d (ReqUserID req) = Inr (Balance account)"
    by (simp add: GetBalance_GetOrCreate)
  from GetByUserID_Inr [OF acc] have u: "AccUserID account = ReqUserID req" by simp
  have "GetByUserID d' (ReqUserID req) =
      Inr (account\<lparr>Balance := Balance account - ReqAmount req, Version := Version account + 1\<rparr>)"
    using GetByUserID_update_where [OF acc _ ac] u bal by simp
  from GetBalance_Inr [OF this]
  have b1: "GetBalance d' (ReqUserID req) = Inr (Balance account - ReqAmount req)"
    by simp
  show ?thesis
    using b0 b1 led ledger_sum_append [OF led, of "ReqUserID req"]
    by (intro exI [of _ "Balance account"] exI [of _ "pay_ledger_row e req account"])
      (simp add: pay_ledger_row_def)
qed

lemma Refund_conserves:
  assumes "Refund cfg e d req = (Inr resp, d')" and "RfRespMessage resp = MsgRefundSuccess"
  shows "\<exists>order b row. GetByOrderNo d (RfOrderNo req) = Inr order
           \<and> GetBalance d (UserID order) = Inr b
           \<and> GetBalance d' (UserID order) = Inr (b + Amount order)
           \<and> ledger d' = ledger d @ [row]
           \<and> TxUserID row = UserID order \<and> TxAmount row = Amount order
           \<and> TxType row = TransactionTypeRefund
           \<and> BalanceBefore row = b \<and> BalanceAfter row = b + Amount order
           \<and> ledger_sum d' (UserID order) = ledger_sum d (UserID order) + Amount order"
proof -
  from assms obtain order account where
    ord: "GetByOrderNo d (RfOrderNo req) = Inr order"
    and acc: "GetByUserID d (UserID order) = Inr account"
    and ac: "accounts d' = update_where (\<lambda>a. AccUserID a = UserID order)
       (\<lambda>a. a\<lparr>Balance := Balance a + Amount order, Version := Version a + 1\<rparr>) (accounts d)"
    and led: "ledger d' = ledger d @ [refund_ledger_row e req order account]"
    by (rule Refund_success)
  from GetByUserID_Inr [OF acc] have u: "AccUserID account = UserID order" by simp
  have "GetByUserID d' (UserID order) =
      Inr (account\<lparr>Balance := Balance account + Amount order, Version := Version account + 1\<rparr>)"
    using GetByUserID_update_where [OF acc _ ac] u by simp
  from GetBalance_Inr [OF this]
  have b1: "GetBalance d' (UserID order) = Inr (Balance account + Amount order)"
    by simp
  show ?thesis
    using ord GetBalance_Inr [OF acc] b1 led ledger_sum_append [OF led, of "UserID order"]
    by (intro exI [of _ order] exI [of _ "Balance account"]
        exI [of _ "refund_ledger_row e req order account"])
      (simp add: refund_ledger_row_def)
qed

lemma Recharge_ledger: "ledger (snd (Recharge d u amt)) = ledger d"
  by (simp add: Recharge_snd Increase_other_tables GetOrCreate_other_tables)

lemma Recharge_balance:
  assumes "0 < amt" and "GetBalance d u = Inr b"
  shows "GetBalance (snd (Recharge d u amt)) u = Inr (b + amt)"
proof -
  let ?d1 = "snd (GetOrCreate d u)"
  have "\<exists>a \<in> set (accounts ?d1). AccUserID a = u"
    by (auto simp: GetOrCreate_accounts)
  then have "find (\<lambda>a. AccUserID a = u) (accounts ?d1) \<noteq> None"
    by (auto simp: find_None_iff)
  then obtain account where acc: "GetByUserID ?d1 u = Inr account"
    by (auto simp: GetByUserID_def)
  from GetBalance_Inr [OF acc] assms(2) have b: "Balance account = b"
    by (simp add: GetBalance_GetOrCreate)
  have "GetByUserID (snd (Increase ?d1 u amt)) u =
      Inr (account\<lparr>Balance := Balance account + amt, Version := Version account + 1\<rparr>)"
    using GetByUserID_update_where [OF acc _ Increase_accounts, of amt u]
      GetByUserID_Inr [OF acc] by simp
  from GetBalance_Inr [OF this] assms(1) b show ?thesis
    by (simp add: Recharge_snd)
qed

section \<open>The ledger as the service keeps it\<close>

text \<open>
  Every service operation keeps \<open>ledger_ok\<close>: the ledger rows of an order number start with
  its PAY row, and a PAID order has a ledger row. So the store that \<open>compensateOrder\<close>
  reads satisfies \<open>ledger_starts_with_pay\<close> for every order number.
\<close>

lemma find_append_Some: "find P xs = Some x \<Longrightarrow> find P (xs @ ys) = Some x"
  by (induction xs) (auto split: if_splits)

lemma ledger_starts_with_pay_append:
  assumes "ledger d' = ledger d @ [row]"
  shows "ledger_starts_with_pay d' n \<longleftrightarrow>
     (if list_ex (\<lambda>r. TxOrderNo r = n) (ledger d) then ledger_starts_with_pay d n
      else TxOrderNo row = n \<longrightarrow> TxType row = TransactionTypePay)"
proof (cases "find (\<lambda>r. TxOrderNo r = n) (ledger d)")
  case None
  then have "\<forall>r \<in> set (ledger d). \<not> TxOrderNo r = n" by (simp add: find_None_iff)
  then show ?thesis
    by (auto simp: ledger_starts_with_pay_def TransactionGetByOrderNo_def assms
        find_append_fresh list_ex_iff)
next
  case (Some r)
  then have "list_ex (\<lambda>r. TxOrderNo r = n) (ledger d)"
    by (auto simp: list_ex_iff dest: find_Some_set)
  with Some show ?thesis
    by (simp add: ledger_starts_with_pay_def TransactionGetByOrderNo_def assms find_append_Some)
qed

lemma ledger_ok_starts: "ledger_ok d \<Longrightarrow> ledger_starts_with_pay d n"
proof (cases "find (\<lambda>r. TxOrderNo r = n) (ledger d)")
  case None
  then show ?thesis by (simp add: ledger_starts_with_pay_def TransactionGetByOrderNo_def)
next
  case (Some r)
  assume "ledger_ok d"
  with find_Some_set [OF Some] show ?thesis
    by (auto simp: ledger_ok_def list_all_iff)
qed

lemma ledger_ok_empty: "ledger_ok db_empty"
  by (simp add: ledger_ok_def db_empty_def)

lemma ledger_ok_same_tables:
  "orders d' = orders d \<Longrightarrow> ledger d' = ledger d \<Longrightarrow> ledger_ok d' = ledger_ok d"
  by (simp add: ledger_ok_def ledger_starts_with_pay_def TransactionGetByOrderNo_def)

lemma ledger_ok_append_pay:
  assumes ok: "ledger_ok d" and led: "ledger d' = ledger d @ [row]"
    and ty: "TxType row = TransactionTypePay"
    and ords: "orders d' = orders d @ [r]" and no: "OrderNo r = TxOrderNo row"
  shows "ledger_ok d'"
proof -
  have starts: "ledger_starts_with_pay d' n" for n
    using ledger_ok_starts [OF ok, of n] ty
    by (simp add: ledger_starts_with_pay_append [OF led])
  have "list_ex (\<lambda>row. TxOrderNo row = OrderNo x) (ledger d')"
    if "x \<in> set (orders d')" "Status x = OrderStatusPaid" for x
    using that ok no by (auto simp: ords led ledger_ok_def list_all_iff list_ex_iff)
  with starts show ?thesis
    by (simp add: ledger_ok_def list_all_iff)
qed

lemma Transaction_Inr: "body d = Inr d' \<Longrightarrow> Transaction d body = (None, d')"
  by (simp add: Transaction_def)

lemma Transaction_Inl: "body d = Inl err \<Longrightarrow> Transaction d body = (Some err, d)"
  by (simp add: Transaction_def)

lemma Pay_after_checks:
  assumes "GetByRequestID d (ReqRequestID req) = None" and "LockResult e = None"
    and "GetOrCreate d (ReqUserID req) = (Inr account, d1)"
    and "\<not> Balance account < ReqAmount req"
  shows "Pay cfg e d req =
     (case Transaction d1 (PayTx cfg e d1 req account
             \<lparr>OrderNo = GenOrderNo e, RequestID = ReqRequestID req,
                   UserID = ReqUserID req, Amount = ReqAmount req,
                   ProductType = ReqProductType req, ProductID = ReqProductID req,
                   Status = OrderStatusCreated,
                   ExpiredAt = Now e + minutes (OrderTimeoutMinutes cfg),
                   PaidAt = None, CreatedAt = 0, UpdatedAt = 0\<rparr>) of
        (Some err, d2) \<Rightarrow> (Inl err, d2)
      | (None, d2) \<Rightarrow>
          (Inr \<lparr>RespOrderNo = GenOrderNo e, RespStatus = OrderStatusPaid,
                RespAmount = ReqAmount req, RespMessage = MsgPaySuccess\<rparr>, d2))"
  using assms by (simp add: Pay_def Let_def)

lemma Pay_cases:
  "(\<exists>resp. Pay cfg e d req = (Inr resp, snd (Pay cfg e d req)) \<and> RespMessage resp = MsgPaySuccess)
   \<or> (orders (snd (Pay cfg e d req)) = orders d \<and> ledger (snd (Pay cfg e d req)) = ledger d)"
proof (cases "GetByRequestID d (ReqRequestID req)")
  case (Some existingOrder)
  then show ?thesis by (simp add: Pay_def)
next
  case None
  show ?thesis
  proof (cases "LockResult e")
    case (Some err)
    with None show ?thesis by (simp add: Pay_def)
  next
    case nolock: None
    obtain res d1 where g: "GetOrCreate d (ReqUserID req) = (res, d1)"
      by (cases "GetOrCreate d (ReqUserID req)")
    then have d1: "d1 = snd (GetOrCreate d (ReqUserID req))" by simp
    have same: "orders d1 = orders d" "ledger d1 = ledger d"
      by (simp_all add: d1 GetOrCreate_other_tables)
    show ?thesis
    proof (cases res)
      case (Inl err)
      with None nolock g same show ?thesis by (simp add: Pay_def)
    next
      case (Inr account)
      show ?thesis
      proof (cases "Balance account < ReqAmount req")
        case True
        with None nolock g same Inr show ?thesis by (simp add: Pay_def)
      next
        case False
        let ?order = "\<lparr>OrderNo = GenOrderNo e, RequestID = ReqRequestID req,
                   UserID = ReqUserID req, Amount = ReqAmount req,
                   ProductType = ReqProductType req, ProductID = ReqProductID req,
                   Status = OrderStatusCreated,
                   ExpiredAt = Now e + minutes (OrderTimeoutMinutes cfg),
                   PaidAt = None, CreatedAt = 0, UpdatedAt = 0\<rparr>"
        note unfold = Pay_after_checks [OF None nolock g [unfolded Inr] False, of cfg]
        show ?thesis
        proof (cases "PayTx cfg e d1 req account ?order d1")
          case (Inl err)
          from same show ?thesis
            by (simp add: unfold Transaction_Inl [where body = "PayTx cfg e d1 req account ?order" and d = d1, OF Inl])
        next
          case txok: (Inr d2)
          show ?thesis
            by (rule disjI1, rule exI [of _ "\<lparr>RespOrderNo = GenOrderNo e,
                RespStatus = OrderStatusPaid, RespAmount = ReqAmount req,
                RespMessage = MsgPaySuccess\<rparr>"])
              (simp add: unfold Transaction_Inr [where body = "PayTx cfg e d1 req account ?order" and d = d1, OF txok])
        qed
      qed
    qed
  qed
qed


lemma Pay_ledger_ok:
  assumes "ledger_ok d"
  shows "ledger_ok (snd (Pay cfg e d req))"
proof -
  consider resp where "Pay cfg e d req = (Inr resp, snd (Pay cfg e d req))"
      "RespMessage resp = MsgPaySuccess"
    | "orders (snd (Pay cfg e d req)) = orders d" "ledger (snd (Pay cfg e d req)) = ledger d"
    using Pay_cases [of cfg e d req] by blast
  then show ?thesis
  proof cases
    case 1
    then obtain account where
      o: "orders (snd (Pay cfg e d req)) = orders d @ [paid_order cfg e req]" and
      l: "ledger (snd (Pay cfg e d req)) = ledger d @ [pay_ledger_row e req account]"
      by (rule Pay_success)
    have ty: "TxType (pay_ledger_row e req account) = TransactionTypePay"
      and no: "OrderNo (paid_order cfg e req) = TxOrderNo (pay_ledger_row e req account)"
      by (simp_all add: pay_ledger_row_def paid_order_def)
    from assms l ty o no show ?thesis by (rule ledger_ok_append_pay)
  next
    case 2
    from ledger_ok_same_tables [OF 2] assms show ?thesis by simp
  qed
qed

lemma UpdateStatus_tables:
  "ledger (snd (UpdateStatus now d no f t)) = ledger d"
  "accounts (snd (UpdateStatus now d no f t)) = accounts d"
  "outbox (snd (UpdateStatus now d no f t)) = outbox d"
  by (simp_all add: UpdateStatus_def Let_def)

lemma UpdateStatus_paid_rows:
  assumes "x' \<in> set (orders (snd (UpdateStatus now d no f t)))" and "Status x' = OrderStatusPaid"
  shows "(\<exists>x \<in> set (orders d). OrderNo x = OrderNo x' \<and> Status x = OrderStatusPaid)
         \<or> (t = OrderStatusPaid \<and> OrderNo x' = no)"
  using assms
  by (auto simp: UpdateStatus_def Let_def update_where_def split: if_splits)

lemma ledger_ok_step:
  assumes ok: "ledger_ok d"
    and led: "ledger d' = ledger d \<or>
       (\<exists>row. ledger d' = ledger d @ [row] \<and> list_ex (\<lambda>r. TxOrderNo r = TxOrderNo row) (ledger d))"
    and paid: "\<And>x'. x' \<in> set (orders d') \<Longrightarrow> Status x' = OrderStatusPaid \<Longrightarrow>
       list_ex (\<lambda>row. TxOrderNo row = OrderNo x') (ledger d)"
  shows "ledger_ok d'"
proof -
  have starts: "ledger_starts_with_pay d' n" for n
    using led
  proof
    assume "ledger d' = ledger d"
    with ledger_ok_starts [OF ok, of n] show ?thesis
      by (simp add: ledger_starts_with_pay_def TransactionGetByOrderNo_def)
  next
    assume "\<exists>row. ledger d' = ledger d @ [row] \<and>
        list_ex (\<lambda>r. TxOrderNo r = TxOrderNo row) (ledger d)"
    then obtain row where l: "ledger d' = ledger d @ [row]"
      and ex: "list_ex (\<lambda>r. TxOrderNo r = TxOrderNo row) (ledger d)" by blast
    show ?thesis
      using ledger_ok_starts [OF ok, of n] ex
      by (auto simp: ledger_starts_with_pay_append [OF l])
  qed
  have "list_ex (\<lambda>row. TxOrderNo row = OrderNo x') (ledger d')"
    if "x' \<in> set (orders d')" "Status x' = OrderStatusPaid" for x'
    using paid [OF that] led by (auto simp: list_ex_iff)
  with starts show ?thesis
    by (simp add: ledger_ok_def list_all_iff)
qed

lemma ledger_ok_paid:
  "ledger_ok d \<Longrightarrow> x \<in> set (orders d) \<Longrightarrow> Status x = OrderStatusPaid \<Longrightarrow>
   list_ex (\<lambda>row. TxOrderNo row = OrderNo x) (ledger d)"
  by (simp add: ledger_ok_def list_all_iff)

lemma UpdateStatus_ledger_ok:
  assumes ok: "ledger_ok d"
    and t: "t = OrderStatusPaid \<Longrightarrow> list_ex (\<lambda>row. TxOrderNo row = no) (ledger d)"
  shows "ledger_ok (snd (UpdateStatus now d no f t))"
proof (rule ledger_ok_step [OF ok])
  show "ledger (snd (UpdateStatus now d no f t)) = ledger d \<or>
       (\<exists>row. ledger (snd (UpdateStatus now d no f t)) = ledger d @ [row] \<and>
          list_ex (\<lambda>r. TxOrderNo r = TxOrderNo row) (ledger d))"
    by (simp add: UpdateStatus_tables)
next
  fix x' assume "x' \<in> set (orders (snd (UpdateStatus now d no f t)))"
    and "Status x' = OrderStatusPaid"
  from UpdateStatus_paid_rows [OF this]
  show "list_ex (\<lambda>row. TxOrderNo row = OrderNo x') (ledger d)"
  proof (elim disjE bexE conjE)
    fix x assume x: "x \<in> set (orders d)" "Status x = OrderStatusPaid"
      and eq: "OrderNo x = OrderNo x'"
    from ledger_ok_paid [OF ok x] show ?thesis by (simp add: eq)
  next
    assume "t = OrderStatusPaid" and "OrderNo x' = no"
    with t show ?thesis by simp
  qed
qed

lemma UpdateStatus_ledger_ok_other:
  "ledger_ok d \<Longrightarrow> t \<noteq> OrderStatusPaid \<Longrightarrow> ledger_ok (snd (UpdateStatus now d no f t))"
  by (rule UpdateStatus_ledger_ok) simp_all

lemma CancelOrder_ledger_ok: "ledger_ok d \<Longrightarrow> ledger_ok (snd (CancelOrder now d no))"
  by (cases "GetByOrderNo d no")
    (simp_all add: CancelOrder_def UpdateStatus_ledger_ok_other OrderStatus_defs)

lemma Recharge_ledger_ok:
  assumes "ledger_ok d"
  shows "ledger_ok (snd (Recharge d u amt))"
proof -
  have "orders (snd (Recharge d u amt)) = orders d"
    by (simp add: Recharge_snd Increase_other_tables GetOrCreate_other_tables)
  from ledger_ok_same_tables [OF this Recharge_ledger] assms show ?thesis by simp
qed

lemma compensateOrder_ledger_ok:
  assumes "ledger_ok d"
  shows "ledger_ok (compensateOrder cfg now d order)"
proof -
  have "list_ex (\<lambda>row. TxOrderNo row = OrderNo order) (ledger d)"
    if "first_ledger_row_is_pay d (OrderNo order)"
    using that
    by (auto simp: first_ledger_row_is_pay_def TransactionGetByOrderNo_def list_ex_iff
        split: option.splits dest: find_Some_set)
  then have "ledger_ok (snd (UpdateStatus now d (OrderNo order) OrderStatusPaying OrderStatusPaid))"
    if "first_ledger_row_is_pay d (OrderNo order)"
    using that assms by (intro UpdateStatus_ledger_ok) simp_all
  moreover have "ledger_ok (snd (UpdateStatus now d (OrderNo order) OrderStatusPaying OrderStatusFailed))"
    using assms by (rule UpdateStatus_ledger_ok_other) (simp add: OrderStatus_defs)
  ultimately show ?thesis
    using assms by (simp add: compensateOrder_unfold)
qed

lemma Refund_locked_cases:
  "(\<exists>resp. Refund_locked cfg e d req = (Inr resp, snd (Refund_locked cfg e d req)) \<and>
       RfRespMessage resp = MsgRefundSuccess)
   \<or> snd (Refund_locked cfg e d req) = d"
proof (cases "LockResult e")
  case (Some err)
  then show ?thesis by (simp add: Refund_locked_def)
next
  case nolock: None
  show ?thesis
  proof (cases "GetByOrderNo d (RfOrderNo req)")
    case (Inl err)
    with nolock show ?thesis by (simp add: Refund_locked_def)
  next
    case (Inr order)
    show ?thesis
    proof (cases "Status order = OrderStatusPaid")
      case False
      with nolock Inr show ?thesis by (simp add: Refund_locked_def)
    next
      case True
      show ?thesis
      proof (cases "RefundTx cfg e d req order d")
        case (Inl err)
        with nolock Inr True show ?thesis
          by (simp add: Refund_locked_def Let_def
              Transaction_Inl [where body = "RefundTx cfg e d req order" and d = d, OF Inl])
      next
        case txok: (Inr d2)
        show ?thesis
          by (rule disjI1, rule exI [of _ "\<lparr>RfRespRefundNo = GenRefundNo e,
              RfRespOrderNo = RfOrderNo req, RfRespAmount = Amount order,
              RfRespStatus = OrderStatusRefunded, RfRespMessage = MsgRefundSuccess\<rparr>"])
            (simp add: Refund_locked_def Let_def nolock Inr True
              Transaction_Inr [where body = "RefundTx cfg e d req order" and d = d, OF txok])
      qed
    qed
  qed
qed

lemma Refund_cases:
  "(\<exists>resp. Refund cfg e d req = (Inr resp, snd (Refund cfg e d req)) \<and>
       RfRespMessage resp = MsgRefundSuccess)
   \<or> snd (Refund cfg e d req) = d"
proof (cases "Refund cfg e d req = Refund_locked cfg e d req")
  case True
  with Refund_locked_cases [of cfg e d req] show ?thesis by simp
next
  case False
  then have "snd (Refund cfg e d req) = d"
    by (auto simp: Refund_def split: sum.splits if_splits option.splits)
  then show ?thesis ..
qed

lemma Refund_success_orders:
  assumes "Refund cfg e d req = (Inr resp, d')" and "RfRespMessage resp = MsgRefundSuccess"
    and "x' \<in> set (orders d')" and "Status x' = OrderStatusPaid"
  shows "\<exists>x \<in> set (orders d). OrderNo x = OrderNo x' \<and> Status x = OrderStatusPaid"
proof -
  from assms(1,2) have locked: "Refund_locked cfg e d req = (Inr resp, d')"
    by (auto simp: Refund_def refunded_response_def split: sum.splits if_splits option.splits)
  then obtain order where tx: "RefundTx cfg e d req order d = Inr d'"
    using assms(2)
    by (auto simp: Refund_locked_def refunded_response_def Transaction_def Let_def
        split: sum.splits if_splits option.splits prod.splits)
  from tx obtain account tx1 tx2 tx3 tx4 where
    s1: "UpdateStatus (Now e) d (RfOrderNo req) OrderStatusPaid OrderStatusRefunding = (None, tx1)" and
    s2: "Increase tx1 (UserID order) (Amount order) = (None, tx2)" and
    s3: "TransactionCreate tx2 (refund_ledger_row e req order account) = (None, tx3)" and
    s4: "UpdateStatus (Now e) tx3 (RfOrderNo req) OrderStatusRefunding OrderStatusRefunded = (None, tx4)" and
    s5: "OutboxCreate tx4
       \<lparr>MsgID = 0, MessageKey = GenRefundNo e, Topic = PayResultTopic cfg,
        Payload = JsonPayload e, MsgStatus = OutboxStatusPending, RetryCount = 0\<rparr> = (None, d')"
    by (rule RefundTx_InrE)
  note f2 = Increase_None [OF s2] and f3 = TransactionCreate_None [OF s3]
    and f5 = OutboxCreate_None [OF s5]
  from s1 have t1: "tx1 = snd (UpdateStatus (Now e) d (RfOrderNo req) OrderStatusPaid OrderStatusRefunding)"
    by simp
  from s4 have t4: "tx4 = snd (UpdateStatus (Now e) tx3 (RfOrderNo req) OrderStatusRefunding OrderStatusRefunded)"
    by simp
  from assms(3) have "x' \<in> set (orders (snd (UpdateStatus (Now e) tx3 (RfOrderNo req)
      OrderStatusRefunding OrderStatusRefunded)))"
    by (simp add: f5(3) t4)
  from UpdateStatus_paid_rows [OF this assms(4)]
  obtain y where y: "y \<in> set (orders tx3)" "OrderNo y = OrderNo x'" "Status y = OrderStatusPaid"
    by (auto simp: OrderStatus_defs)
  from y(1) have "y \<in> set (orders (snd (UpdateStatus (Now e) d (RfOrderNo req)
      OrderStatusPaid OrderStatusRefunding)))"
    by (simp add: f3(3) f2(2) t1)
  from UpdateStatus_paid_rows [OF this y(3)]
  obtain x where "x \<in> set (orders d)" "OrderNo x = OrderNo y" "Status x = OrderStatusPaid"
    by (auto simp: OrderStatus_defs)
  with y(2) show ?thesis by auto
qed

lemma Refund_ledger_ok:
  assumes ok: "ledger_ok d"
  shows "ledger_ok (snd (Refund cfg e d req))"
proof -
  consider resp where "Refund cfg e d req = (Inr resp, snd (Refund cfg e d req))"
      "RfRespMessage resp = MsgRefundSuccess"
    | "snd (Refund cfg e d req) = d"
    using Refund_cases [of cfg e d req] by blast
  then show ?thesis
  proof cases
    case 1
    from 1 obtain order account where
      ord: "GetByOrderNo d (RfOrderNo req) = Inr order"
      and st: "Status order = OrderStatusPaid"
      and led: "ledger (snd (Refund cfg e d req)) = ledger d @ [refund_ledger_row e req order account]"
      by (rule Refund_success)
    from ord have mem: "order \<in> set (orders d)" and no: "OrderNo order = RfOrderNo req"
      by (auto simp: GetByOrderNo_def split: option.splits dest: find_Some_set)
    from ledger_ok_paid [OF ok mem st] no
    have ex: "list_ex (\<lambda>r. TxOrderNo r = TxOrderNo (refund_ledger_row e req order account)) (ledger d)"
      by (simp add: refund_ledger_row_def)
    show ?thesis
    proof (rule ledger_ok_step [OF ok])
      show "ledger (snd (Refund cfg e d req)) = ledger d \<or>
         (\<exists>row. ledger (snd (Refund cfg e d req)) = ledger d @ [row] \<and>
            list_ex (\<lambda>r. TxOrderNo r = TxOrderNo row) (ledger d))"
        using led ex by blast
    next
      fix x' assume "x' \<in> set (orders (snd (Refund cfg e d req)))" "Status x' = OrderStatusPaid"
      from Refund_success_orders [OF 1 this]
      obtain x where x: "x \<in> set (orders d)" "Status x = OrderStatusPaid"
        and eq: "OrderNo x = OrderNo x'" by blast
      from ledger_ok_paid [OF ok x] show "list_ex (\<lambda>row. TxOrderNo row = OrderNo x') (ledger d)"
        by (simp add: eq)
    qed
  next
    case 2
    with ok show ?thesis by simp
  qed
qed

text \<open>
  Outside such stores the job decides on the first ledger row alone. In a store that no
  path of the service writes, with a REFUND row ahead of the PAY row of a PAYING order,
  \<open>ledger_starts_with_pay\<close> fails and \<open>compensateOrder\<close> leaves the young order as it is.
\<close>

lemma compensateOrder_reads_first_row:
  "\<not> ledger_starts_with_pay db_paying_refund_first ''PAY1''
   \<and> \<not> ledger_ok db_paying_refund_first
   \<and> pay_row_exists db_paying_refund_first ''PAY1''
   \<and> compensateOrder cfg0 (1000 + 6 * Minute) db_paying_refund_first (order1 ''PAYING'' 1000)
       = db_paying_refund_first"
  by (simp add: compensateOrder_def TransactionGetByOrderNo_def ledger_starts_with_pay_def
      ledger_ok_def pay_row_exists_def db_paying_refund_first_def order1_def pay_row1_def
      refund_row1_def cfg0_def minutes_def wrap64_def Since_def Minute_def
      TransactionType_defs OrderStatus_defs Let_def)

end
